theory Spec2Isabelle
  imports Complex_Main "HOL-Library.Log_Nat"
begin

section \<open>JavaScript numbers\<close>

text \<open>
  A JavaScript number is an IEEE 754 binary64 value: a finite one, given by the real
  number it stands for, one of the two infinities, or NaN. The two zeros are one value
  here: no operation of the source that is modelled tells them apart.

  \<open>round64\<close> rounds a real number to the nearest binary64 value, a tie going to the
  value with the even significand: 53 significant bits from the binade of the number,
  the spacing of the subnormal range below \<open>2 ^ -1022\<close>, and an infinity when the rounded
  value reaches \<open>2 ^ 1024\<close>. It gives the number that a decimal literal of the source
  denotes (\<^verbatim>\<open>1.4\<close> is \<open>round64 (14 / 10)\<close>), and an arithmetic operation returns
  \<open>round64\<close> of its exact result.
\<close>

datatype number = Finite real | PlusInfinity | MinusInfinity | NaN

text \<open>The exponent \<open>e\<close> with \<open>2 ^ e \<le> \<bar>x\<bar> < 2 ^ (e + 1)\<close>, for \<open>x\<close> other than 0.\<close>

definition binade :: "real \<Rightarrow> int" where
  "binade x =
     (if \<bar>x\<bar> \<ge> 1 then bitlen \<lfloor>\<bar>x\<bar>\<rfloor> - 1 else - bitlen (\<lceil>1 / \<bar>x\<bar>\<rceil> - 1))"

definition pow2 :: "int \<Rightarrow> real" where
  "pow2 k = (if k \<ge> 0 then 2 ^ nat k else 1 / 2 ^ nat (- k))"

definition round_half_even :: "real \<Rightarrow> int" where
  "round_half_even y =
     (let f = \<lfloor>y\<rfloor> in
      if y - of_int f < 1 / 2 then f
      else if y - of_int f > 1 / 2 then f + 1
      else if even f then f else f + 1)"

definition round64 :: "real \<Rightarrow> number" where
  "round64 x =
     (if x = 0 then Finite 0
      else
        let q = max (binade x) (- 1022) - 52;
            r = of_int (round_half_even (x / pow2 q)) * pow2 q
        in if r \<ge> pow2 1024 then PlusInfinity
           else if r \<le> - pow2 1024 then MinusInfinity
           else Finite r)"

text \<open>The operator \<^verbatim>\<open>*\<close>.\<close>

fun js_times :: "number \<Rightarrow> number \<Rightarrow> number" where
  "js_times NaN b = NaN"
| "js_times a NaN = NaN"
| "js_times (Finite x) (Finite y) = round64 (x * y)"
| "js_times (Finite x) PlusInfinity =
     (if x = 0 then NaN else if x > 0 then PlusInfinity else MinusInfinity)"
| "js_times (Finite x) MinusInfinity =
     (if x = 0 then NaN else if x > 0 then MinusInfinity else PlusInfinity)"
| "js_times PlusInfinity (Finite y) =
     (if y = 0 then NaN else if y > 0 then PlusInfinity else MinusInfinity)"
| "js_times MinusInfinity (Finite y) =
     (if y = 0 then NaN else if y > 0 then MinusInfinity else PlusInfinity)"
| "js_times PlusInfinity PlusInfinity = PlusInfinity"
| "js_times PlusInfinity MinusInfinity = MinusInfinity"
| "js_times MinusInfinity PlusInfinity = MinusInfinity"
| "js_times MinusInfinity MinusInfinity = PlusInfinity"

text \<open>\<^verbatim>\<open>Math.floor\<close>: the floor of a binary64 value is a binary64 value.\<close>

fun Math_floor :: "number \<Rightarrow> number" where
  "Math_floor (Finite x) = Finite (real_of_int \<lfloor>x\<rfloor>)"
| "Math_floor a = a"

text \<open>\<^verbatim>\<open>Math.min\<close> of two arguments: NaN if one of them is NaN.\<close>

fun Math_min :: "number \<Rightarrow> number \<Rightarrow> number" where
  "Math_min NaN b = NaN"
| "Math_min a NaN = NaN"
| "Math_min MinusInfinity b = MinusInfinity"
| "Math_min a MinusInfinity = MinusInfinity"
| "Math_min PlusInfinity b = b"
| "Math_min a PlusInfinity = a"
| "Math_min (Finite x) (Finite y) = Finite (min x y)"

text \<open>The comparisons \<^verbatim>\<open><=\<close> and \<^verbatim>\<open>>\<close>: false when an operand is NaN.\<close>

fun js_le :: "number \<Rightarrow> number \<Rightarrow> bool" where
  "js_le NaN b = False"
| "js_le a NaN = False"
| "js_le MinusInfinity b = True"
| "js_le a PlusInfinity = True"
| "js_le (Finite x) (Finite y) = (x \<le> y)"
| "js_le a b = False"

fun js_greater :: "number \<Rightarrow> number \<Rightarrow> bool" where
  "js_greater NaN b = False"
| "js_greater a NaN = False"
| "js_greater a b = (\<not> js_le a b)"

section \<open>The browser's timer table\<close>

text \<open>
  The classes call \<^verbatim>\<open>window.setTimeout\<close>, \<^verbatim>\<open>window.setInterval\<close>,
  \<^verbatim>\<open>clearTimeout\<close> and \<^verbatim>\<open>clearInterval\<close>. The table of pending timers is made
  explicit: every entry has the handle the browser returned, the method it will call
  and its delay in milliseconds. Handles are positive and never reused, so a handle is
  truthy in JavaScript. The delay of an entry is the number that was passed. Clock
  readings of \<^verbatim>\<open>Date.now()\<close> are integers.
\<close>

datatype timer_kind =
    ConnectionTimer    \<comment> \<open>the arrow function of \<^verbatim>\<open>createConnection\<close>\<close>
  | ReconnectTimer     \<comment> \<open>\<^verbatim>\<open>() => this.executeReconnect()\<close>\<close>
  | HeartbeatTick      \<comment> \<open>\<^verbatim>\<open>() => this.sendHeartbeat()\<close>, repeating\<close>
  | HeartbeatTimer     \<comment> \<open>\<^verbatim>\<open>() => this.handleHeartbeatTimeout()\<close>\<close>

record window =
  timer_list :: "(nat \<times> timer_kind \<times> number) list"
  next_timer_id :: nat

definition window_init :: window where
  "window_init = \<lparr>timer_list = [], next_timer_id = 1\<rparr>"

definition setTimeout :: "timer_kind \<Rightarrow> number \<Rightarrow> window \<Rightarrow> nat \<times> window" where
  "setTimeout k d win =
     (next_timer_id win,
      win\<lparr>timer_list := (next_timer_id win, k, d) # timer_list win,
          next_timer_id := next_timer_id win + 1\<rparr>)"

text \<open>\<^verbatim>\<open>setInterval\<close> enters the table the same way; \<^verbatim>\<open>clearInterval\<close> is
  \<^verbatim>\<open>clearTimeout\<close>.\<close>

definition setInterval :: "timer_kind \<Rightarrow> number \<Rightarrow> window \<Rightarrow> nat \<times> window" where
  "setInterval k d win = setTimeout k d win"

definition clearTimeout :: "nat \<Rightarrow> window \<Rightarrow> window" where
  "clearTimeout tid win = win\<lparr>timer_list := filter (\<lambda>e. fst e \<noteq> tid) (timer_list win)\<rparr>"

definition timer_lookup :: "nat \<Rightarrow> window \<Rightarrow> (timer_kind \<times> number) option" where
  "timer_lookup tid win = map_of (timer_list win) tid"

section \<open>ReconnectionManager\<close>

record rm_config =
  maxAttempts :: nat
  initialDelay :: number
  maxDelay :: number
  delayMultiplier :: number

text \<open>The callbacks are opaque values of a type \<open>'f\<close>; \<^verbatim>\<open>null\<close> is \<open>None\<close>.\<close>

record 'f rm =
  attempts :: nat
  currentDelay :: number
  timeoutId :: "nat option"
  isScheduled :: bool
  reconnectFn :: "'f option"
  onAttempt :: "'f option"
  onMaxAttemptsReached :: "'f option"

text \<open>What a method of the manager calls in its caller's world, in order.\<close>

datatype 'f rm_call =
    CallAttempt 'f nat nat number      \<comment> \<open>\<^verbatim>\<open>onAttempt(attempts, maxAttempts, delay)\<close>\<close>
  | CallMaxAttemptsReached 'f
  | CallReconnect 'f

definition rm_new :: "rm_config \<Rightarrow> 'f rm" where
  "rm_new cfg = \<lparr>attempts = 0, currentDelay = initialDelay cfg, timeoutId = None,
     isScheduled = False, reconnectFn = None, onAttempt = None,
     onMaxAttemptsReached = None\<rparr>"

definition schedule ::
  "rm_config \<Rightarrow> 'f \<Rightarrow> 'f option \<Rightarrow> 'f option \<Rightarrow> 'f rm \<times> window
     \<Rightarrow> 'f rm \<times> window \<times> 'f rm_call list" where
  "schedule cfg reconnect onAtt onMax st =
     (case st of (r, win) \<Rightarrow>
      if attempts r \<ge> maxAttempts cfg then
        (r, win,
         (case onMax of
            Some f \<Rightarrow> [CallMaxAttemptsReached f]
          | None \<Rightarrow> (case onMaxAttemptsReached r of
                       Some g \<Rightarrow> [CallMaxAttemptsReached g]
                     | None \<Rightarrow> [])))
      else
        let r1 = r\<lparr>reconnectFn := Some reconnect\<rparr>;
            r2 = (case onAtt of Some f \<Rightarrow> r1\<lparr>onAttempt := Some f\<rparr> | None \<Rightarrow> r1);
            r3 = (case onMax of Some f \<Rightarrow> r2\<lparr>onMaxAttemptsReached := Some f\<rparr> | None \<Rightarrow> r2);
            r4 = r3\<lparr>attempts := attempts r3 + 1, isScheduled := True\<rparr>;
            delay = Math_min (currentDelay r4) (maxDelay cfg);
            calls = (case onAttempt r4 of
                       Some f \<Rightarrow> [CallAttempt f (attempts r4) (maxAttempts cfg) delay]
                     | None \<Rightarrow> []);
            (tid, win') = setTimeout ReconnectTimer delay win;
            r5 = r4\<lparr>timeoutId := Some tid\<rparr>;
            r6 = r5\<lparr>currentDelay :=
                     Math_floor (js_times (currentDelay r5) (delayMultiplier cfg))\<rparr>
        in (r6, win', calls))"

definition cancel :: "'f rm \<times> window \<Rightarrow> 'f rm \<times> window" where
  "cancel st =
     (case st of (r, win) \<Rightarrow>
      (case timeoutId r of
         Some tid \<Rightarrow> (r\<lparr>timeoutId := None, isScheduled := False\<rparr>, clearTimeout tid win)
       | None \<Rightarrow> (r\<lparr>isScheduled := False\<rparr>, win)))"

definition reset :: "rm_config \<Rightarrow> 'f rm \<times> window \<Rightarrow> 'f rm \<times> window" where
  "reset cfg st =
     (case cancel st of (r, win) \<Rightarrow>
      (r\<lparr>attempts := 0, currentDelay := initialDelay cfg, reconnectFn := None,
         onAttempt := None, onMaxAttemptsReached := None\<rparr>, win))"

definition executeReconnect :: "'f rm \<Rightarrow> 'f rm \<times> 'f rm_call list" where
  "executeReconnect r =
     (r\<lparr>timeoutId := None, isScheduled := False\<rparr>,
      (case reconnectFn r of Some f \<Rightarrow> [CallReconnect f] | None \<Rightarrow> []))"

text \<open>\<open>n\<close> calls of \<^verbatim>\<open>schedule\<close> in a row, each with the same arguments.\<close>

fun schedule_times ::
  "rm_config \<Rightarrow> 'f \<Rightarrow> 'f option \<Rightarrow> 'f option \<Rightarrow> nat \<Rightarrow> 'f rm \<times> window \<Rightarrow> 'f rm \<times> window" where
  "schedule_times cfg f a m 0 st = st"
| "schedule_times cfg f a m (Suc n) st =
     (case schedule cfg f a m (schedule_times cfg f a m n st) of (r, win, calls) \<Rightarrow> (r, win))"

text \<open>The delay of the timer that the manager holds a handle to, if it holds one.\<close>

definition armed_delay :: "'f rm \<times> window \<Rightarrow> number option" where
  "armed_delay st =
     (case st of (r, win) \<Rightarrow>
      (case timeoutId r of
         None \<Rightarrow> None
       | Some tid \<Rightarrow> map_option snd (timer_lookup tid win)))"

text \<open>
  The stored delay before the \<open>n+1\<close>-th call: the initial delay, and once per earlier
  call the binary64 product with the multiplier, rounded down.
\<close>

fun stored_delay :: "rm_config \<Rightarrow> nat \<Rightarrow> number" where
  "stored_delay cfg 0 = initialDelay cfg"
| "stored_delay cfg (Suc n) = Math_floor (js_times (stored_delay cfg n) (delayMultiplier cfg))"

section \<open>MessageQueue\<close>

text \<open>
  A caller's callback is an opaque identifier; calling it is recorded. The argument of
  \<^verbatim>\<open>onError\<close> is the message of the \<^verbatim>\<open>Error\<close> object.
\<close>

type_synonym cb = nat

datatype cb_call = CallOnSuccess cb | CallOnError cb string

record 'c QueuedMessage =
  command :: 'c
  timestamp :: int
  send_attempts :: nat     \<comment> \<open>the field \<^verbatim>\<open>attempts\<close>\<close>
  onSuccess :: "cb option"
  onError :: "cb option"

text \<open>The \<^verbatim>\<open>if\<close> block of \<^verbatim>\<open>enqueue\<close>: \<^verbatim>\<open>shift()\<close> and the call of
  \<^verbatim>\<open>dropped?.onError\<close>.\<close>

definition drop_oldest ::
  "nat \<Rightarrow> 'c QueuedMessage list \<Rightarrow> 'c QueuedMessage list \<times> cb_call list" where
  "drop_oldest maxSize q =
     (if length q \<ge> maxSize then
        (case q of
           [] \<Rightarrow> ([], [])
         | dropped # rest \<Rightarrow>
             (rest, (case onError dropped of
                       Some f \<Rightarrow> [CallOnError f ''Message dropped: queue overflow'']
                     | None \<Rightarrow> [])))
      else (q, []))"

definition enqueue ::
  "nat \<Rightarrow> 'c \<Rightarrow> cb option \<Rightarrow> cb option \<Rightarrow> int \<Rightarrow> 'c QueuedMessage list
     \<Rightarrow> 'c QueuedMessage list \<times> cb_call list \<times> bool" where
  "enqueue maxSize cmd onS onE now q =
     (case drop_oldest maxSize q of (q1, calls) \<Rightarrow>
      (q1 @ [\<lparr>command = cmd, timestamp = now, send_attempts = 0,
               onSuccess = onS, onError = onE\<rparr>],
       calls, True))"

definition flush :: "'c QueuedMessage list \<Rightarrow> 'c QueuedMessage list \<times> 'c QueuedMessage list" where
  "flush q = (q, [])"

definition isFull :: "nat \<Rightarrow> 'c QueuedMessage list \<Rightarrow> bool" where
  "isFull maxSize q = (length q \<ge> maxSize)"

definition isEmpty :: "'c QueuedMessage list \<Rightarrow> bool" where
  "isEmpty q = (length q = 0)"

section \<open>HeartbeatManager\<close>

record hb_config =
  hb_interval :: number   \<comment> \<open>\<^verbatim>\<open>config.interval\<close>\<close>
  hb_timeout :: number    \<comment> \<open>\<^verbatim>\<open>config.timeout\<close>\<close>

record 'f hb =
  sendPing :: "'f option"
  onTimeout :: "'f option"
  onPong :: "'f option"
  intervalId :: "nat option"
  hb_timeoutId :: "nat option"    \<comment> \<open>the field \<^verbatim>\<open>timeoutId\<close>\<close>
  lastPingTime :: int
  isRunning :: bool

datatype 'f hb_call =
    CallSendPing 'f
  | CallTimeout 'f
  | CallPong 'f int      \<comment> \<open>\<^verbatim>\<open>onPong(latency)\<close>\<close>

text \<open>What the call \<^verbatim>\<open>this.sendPing()\<close> did: returned truthy, returned falsy, or threw.\<close>

datatype ping_result = PingSent | PingNotSent | PingThrew

definition hb_new :: "'f hb" where
  "hb_new = \<lparr>sendPing = None, onTimeout = None, onPong = None, intervalId = None,
     hb_timeoutId = None, lastPingTime = 0, isRunning = False\<rparr>"

definition stop :: "'f hb \<times> window \<Rightarrow> 'f hb \<times> window" where
  "stop st =
     (case st of (h, win) \<Rightarrow>
      let win1 = (case intervalId h of Some i \<Rightarrow> clearTimeout i win | None \<Rightarrow> win);
          win2 = (case hb_timeoutId h of Some t \<Rightarrow> clearTimeout t win1 | None \<Rightarrow> win1)
      in (h\<lparr>intervalId := None, hb_timeoutId := None, isRunning := False,
            sendPing := None, onTimeout := None, onPong := None\<rparr>, win2))"

definition start ::
  "hb_config \<Rightarrow> 'f \<Rightarrow> 'f \<Rightarrow> 'f option \<Rightarrow> 'f hb \<times> window \<Rightarrow> 'f hb \<times> window" where
  "start cfg sp ot op st =
     (case stop st of (h, win) \<Rightarrow>
      if js_le (hb_interval cfg) (Finite 0) then (h, win)
      else
        let h1 = h\<lparr>sendPing := Some sp, onTimeout := Some ot, onPong := op,
                   isRunning := True\<rparr>;
            (iid, win') = setInterval HeartbeatTick (hb_interval cfg) win
        in (h1\<lparr>intervalId := Some iid\<rparr>, win'))"

definition sendHeartbeat ::
  "hb_config \<Rightarrow> int \<Rightarrow> ping_result \<Rightarrow> 'f hb \<times> window \<Rightarrow> 'f hb \<times> window \<times> 'f hb_call list" where
  "sendHeartbeat cfg now res st =
     (case st of (h, win) \<Rightarrow>
      (case sendPing h of
         None \<Rightarrow> (h, win, [])
       | Some f \<Rightarrow>
           let h1 = h\<lparr>lastPingTime := now\<rparr> in
           (case res of
              PingThrew \<Rightarrow> (h1, win, [CallSendPing f])
            | PingNotSent \<Rightarrow> (h1, win, [CallSendPing f])
            | PingSent \<Rightarrow>
                let (tid, win') = setTimeout HeartbeatTimer (hb_timeout cfg) win
                in (h1\<lparr>hb_timeoutId := Some tid\<rparr>, win', [CallSendPing f]))))"

definition handlePong :: "int \<Rightarrow> 'f hb \<times> window \<Rightarrow> 'f hb \<times> window \<times> 'f hb_call list" where
  "handlePong now st =
     (case st of (h, win) \<Rightarrow>
      let (h1, win1) = (case hb_timeoutId h of
                          Some t \<Rightarrow> (h\<lparr>hb_timeoutId := None\<rparr>, clearTimeout t win)
                        | None \<Rightarrow> (h, win))
      in if lastPingTime h1 > 0 then
           (h1, win1, (case onPong h1 of
                         Some f \<Rightarrow> [CallPong f (now - lastPingTime h1)]
                       | None \<Rightarrow> []))
         else (h1, win1, []))"

definition handleHeartbeatTimeout :: "'f hb \<Rightarrow> 'f hb \<times> 'f hb_call list" where
  "handleHeartbeatTimeout h =
     (h\<lparr>hb_timeoutId := None\<rparr>,
      (case onTimeout h of Some f \<Rightarrow> [CallTimeout f] | None \<Rightarrow> []))"

text \<open>
  The browser runs a timer: a timer set by \<^verbatim>\<open>setTimeout\<close> leaves the table when it
  runs, the repeating one set by \<^verbatim>\<open>setInterval\<close> stays.
\<close>

definition fire :: "nat \<Rightarrow> window \<Rightarrow> (timer_kind \<times> window) option" where
  "fire tid win =
     (case timer_lookup tid win of
        None \<Rightarrow> None
      | Some (k, d) \<Rightarrow>
          Some (k, if k = HeartbeatTick then win else clearTimeout tid win))"

section \<open>ConnectionMetrics\<close>

record metrics =
  connectedAt :: "int option"
  disconnectedAt :: "int option"
  messagesSent :: nat
  messagesReceived :: nat
  reconnectAttempts :: nat
  reconnectSuccesses :: nat
  errors :: nat
  latencyMeasurements :: "int list"
  lastLatency :: int
  currentReconnectDelay :: number
  queueSize :: nat

definition metrics_new :: metrics where
  "metrics_new = \<lparr>connectedAt = None, disconnectedAt = None, messagesSent = 0,
     messagesReceived = 0, reconnectAttempts = 0, reconnectSuccesses = 0, errors = 0,
     latencyMeasurements = [], lastLatency = 0, currentReconnectDelay = Finite 0,
     queueSize = 0\<rparr>"

definition recordConnect :: "int \<Rightarrow> metrics \<Rightarrow> metrics" where
  "recordConnect now m = m\<lparr>connectedAt := Some now\<rparr>"

definition recordDisconnect :: "int \<Rightarrow> metrics \<Rightarrow> metrics" where
  "recordDisconnect now m = m\<lparr>disconnectedAt := Some now\<rparr>"

definition recordMessageSent :: "metrics \<Rightarrow> metrics" where
  "recordMessageSent m = m\<lparr>messagesSent := messagesSent m + 1\<rparr>"

definition recordMessageReceived :: "metrics \<Rightarrow> metrics" where
  "recordMessageReceived m = m\<lparr>messagesReceived := messagesReceived m + 1\<rparr>"

definition recordReconnectAttempt :: "metrics \<Rightarrow> metrics" where
  "recordReconnectAttempt m = m\<lparr>reconnectAttempts := reconnectAttempts m + 1\<rparr>"

definition recordReconnectSuccess :: "metrics \<Rightarrow> metrics" where
  "recordReconnectSuccess m = m\<lparr>reconnectSuccesses := reconnectSuccesses m + 1\<rparr>"

definition recordError :: "metrics \<Rightarrow> metrics" where
  "recordError m = m\<lparr>errors := errors m + 1\<rparr>"

text \<open>The service builds its metrics with the default window of 10 measurements.\<close>

definition maxLatencyMeasurements :: nat where
  "maxLatencyMeasurements = 10"

definition recordLatency :: "int \<Rightarrow> metrics \<Rightarrow> metrics" where
  "recordLatency latency m =
     (let ms = latencyMeasurements m @ [latency]
      in m\<lparr>lastLatency := latency,
           latencyMeasurements :=
             (if length ms > maxLatencyMeasurements then tl ms else ms)\<rparr>)"

section \<open>WebSocketService\<close>

datatype WebSocketState = CONNECTING | CONNECTED | CLOSING | CLOSED | RECONNECTING

datatype DisconnectReason =
  MANUAL | NETWORK_ERROR | SERVER_CLOSED | TIMEOUT | MAX_RETRIES_EXCEEDED | UNKNOWN

text \<open>The enum's values are strings; this is the string that \<^verbatim>\<open>socket.close(1000, reason)\<close>
  receives.\<close>

fun reason_string :: "DisconnectReason \<Rightarrow> string" where
  "reason_string MANUAL = ''MANUAL''"
| "reason_string NETWORK_ERROR = ''NETWORK_ERROR''"
| "reason_string SERVER_CLOSED = ''SERVER_CLOSED''"
| "reason_string TIMEOUT = ''TIMEOUT''"
| "reason_string MAX_RETRIES_EXCEEDED = ''MAX_RETRIES_EXCEEDED''"
| "reason_string UNKNOWN = ''UNKNOWN''"

text \<open>
  A command is seen through its action and through what \<^verbatim>\<open>JSON.stringify\<close> does with
  it: \<open>Inr\<close> the text, or \<open>Inl\<close> the message of the error it throws. An incoming frame
  is seen through its raw text and what \<^verbatim>\<open>JSON.parse\<close> does with it.
\<close>

record command =
  action :: string
  json :: "string + string"

definition serializeClientCommand :: "command \<Rightarrow> string + string" where
  "serializeClientCommand c = json c"

datatype parsed =
    ParseThrows string       \<comment> \<open>\<^verbatim>\<open>JSON.parse\<close> throws, with this message\<close>
  | ObjectWithType string    \<comment> \<open>a non-null object with a field \<^verbatim>\<open>type\<close>\<close>
  | OtherValue

record frame =
  raw :: string
  parse :: parsed

text \<open>The events of \<^verbatim>\<open>WebSocketEvent\<close>, each with the fields of its payload in the
  order of the source.\<close>

datatype event =
    Ev_CONNECTED int nat                                 \<comment> \<open>timestamp, attempts\<close>
  | Ev_DISCONNECTED DisconnectReason nat string bool int
      \<comment> \<open>reason, code, reasonText, wasAuthenticated, timestamp\<close>
  | Ev_MESSAGE frame int
  | Ev_ERROR string string int                           \<comment> \<open>type, message, timestamp\<close>
  | Ev_RECONNECT_ATTEMPT nat nat number int              \<comment> \<open>attempt, maxAttempts, delay, timestamp\<close>
  | Ev_STATE_CHANGE WebSocketState WebSocketState int    \<comment> \<open>previousState, currentState, timestamp\<close>
  | Ev_MESSAGE_SENT command string int
  | Ev_AUTH_CHANGE bool int

text \<open>
  Everything the service does to the outside, in order: an event handed to \<^verbatim>\<open>emit\<close>,
  a caller's callback called, a frame given to a socket, a socket closed. Listeners and
  callbacks are observers: they do not call back into the service while it runs, and
  they do not throw. The table of listeners (\<^verbatim>\<open>on\<close>, \<^verbatim>\<open>off\<close>, \<^verbatim>\<open>once\<close>) is left
  out: an event counts as emitted when \<^verbatim>\<open>emit\<close> is called with it. Every handler
  takes the reading \<open>now\<close> of the clock as an argument; the clock does not advance while
  a handler runs.
\<close>

datatype effect =
    Emit event
  | Callback cb_call
  | SocketSend nat string
  | SocketClose nat nat string

datatype readyState = WS_CONNECTING | WS_OPEN | WS_CLOSING | WS_CLOSED

text \<open>The arrow functions the service hands to its two managers.\<close>

datatype closure =
    ConnectFn       \<comment> \<open>\<^verbatim>\<open>() => this.connect()\<close>\<close>
  | AttemptFn       \<comment> \<open>the second argument of \<^verbatim>\<open>schedule\<close>\<close>
  | ExhaustedFn     \<comment> \<open>the third argument of \<^verbatim>\<open>schedule\<close>\<close>
  | PingFn          \<comment> \<open>the first argument of \<^verbatim>\<open>heartbeat.start\<close>\<close>
  | HbTimeoutFn     \<comment> \<open>the second\<close>
  | LatencyFn       \<comment> \<open>the third\<close>

record ws_config =
  maxReconnectAttempts :: nat
  reconnectDelay :: number
  maxReconnectDelay :: number
  reconnectDelayMultiplier :: number
  connectionTimeout :: number
  heartbeatInterval :: number
  heartbeatTimeout :: number
  autoReconnect :: bool
  maxQueueSize :: nat

definition DEFAULT_CONFIG :: ws_config where
  "DEFAULT_CONFIG = \<lparr>maxReconnectAttempts = 10, reconnectDelay = Finite 1000,
     maxReconnectDelay = Finite 30000, reconnectDelayMultiplier = Finite (3 / 2),
     connectionTimeout = Finite 10000, heartbeatInterval = Finite 0,
     heartbeatTimeout = Finite 10000, autoReconnect = True, maxQueueSize = 100\<rparr>"

definition reconnection_config :: "ws_config \<Rightarrow> rm_config" where
  "reconnection_config c = \<lparr>maxAttempts = maxReconnectAttempts c,
     initialDelay = reconnectDelay c, maxDelay = maxReconnectDelay c,
     delayMultiplier = reconnectDelayMultiplier c\<rparr>"

definition heartbeat_config :: "ws_config \<Rightarrow> hb_config" where
  "heartbeat_config c = \<lparr>hb_interval = heartbeatInterval c, hb_timeout = heartbeatTimeout c\<rparr>"

text \<open>
  The fields of the class, then the browser's side: the timer table, the ready state of
  every \<^verbatim>\<open>WebSocket\<close> object created so far (a socket's handle is its index), and
  whether \<^verbatim>\<open>new WebSocket(url)\<close> throws for the configured address. Last, the
  effects so far.
\<close>

record ws =
  config :: ws_config
  socket :: "nat option"
  state :: WebSocketState
  isAuthenticated :: bool
  messageQueue :: "command QueuedMessage list"
  metrics :: metrics
  heartbeat :: "closure hb"
  reconnection :: "closure rm"
  connectionTimeoutId :: "nat option"
  isManualDisconnect :: bool
  isDestroyed :: bool
  win :: window
  sockets :: "readyState list"
  ctor_throws :: bool
  trace :: "effect list"

definition ws_new :: "ws_config \<Rightarrow> bool \<Rightarrow> ws" where
  "ws_new cfg throws = \<lparr>config = cfg, socket = None, state = CLOSED,
     isAuthenticated = False, messageQueue = [], metrics = metrics_new,
     heartbeat = hb_new, reconnection = rm_new (reconnection_config cfg),
     connectionTimeoutId = None, isManualDisconnect = False, isDestroyed = False,
     win = window_init, sockets = [], ctor_throws = throws, trace = []\<rparr>"

definition emit :: "event \<Rightarrow> ws \<Rightarrow> ws" where
  "emit ev w = w\<lparr>trace := trace w @ [Emit ev]\<rparr>"

definition setState :: "WebSocketState \<Rightarrow> int \<Rightarrow> ws \<Rightarrow> ws" where
  "setState newState now w =
     (if state w = newState then w
      else emit (Ev_STATE_CHANGE (state w) newState now) (w\<lparr>state := newState\<rparr>))"

definition clearConnectionTimeout :: "ws \<Rightarrow> ws" where
  "clearConnectionTimeout w =
     (case connectionTimeoutId w of
        Some t \<Rightarrow> w\<lparr>win := clearTimeout t (win w), connectionTimeoutId := None\<rparr>
      | None \<Rightarrow> w)"

definition heartbeat_stop :: "ws \<Rightarrow> ws" where
  "heartbeat_stop w =
     (case stop (heartbeat w, win w) of (h, wn) \<Rightarrow> w\<lparr>heartbeat := h, win := wn\<rparr>)"

text \<open>\<^verbatim>\<open>socket.close(code, reason)\<close>: a socket that is connecting or open starts
  closing; its close event comes later.\<close>

definition readyState_of :: "nat \<Rightarrow> ws \<Rightarrow> readyState" where
  "readyState_of sid w = (if sid < length (sockets w) then sockets w ! sid else WS_CLOSED)"

definition socket_close :: "nat \<Rightarrow> nat \<Rightarrow> string \<Rightarrow> ws \<Rightarrow> ws" where
  "socket_close sid code reason w =
     w\<lparr>sockets := (sockets w)[sid :=
          (if readyState_of sid w = WS_CONNECTING \<or> readyState_of sid w = WS_OPEN
           then WS_CLOSING else readyState_of sid w)],
       trace := trace w @ [SocketClose sid code reason]\<rparr>"

definition closeConnection :: "DisconnectReason \<Rightarrow> int \<Rightarrow> ws \<Rightarrow> ws" where
  "closeConnection reason now w =
     (let w1 = clearConnectionTimeout w;
          w2 = heartbeat_stop w1;
          w3 = (case socket w2 of
                  Some sid \<Rightarrow> (socket_close sid 1000 (reason_string reason) w2)\<lparr>socket := None\<rparr>
                | None \<Rightarrow> w2)
      in if state w3 \<noteq> CLOSED then setState CLOSED now w3 else w3)"

definition handleConnectionError :: "DisconnectReason \<Rightarrow> int \<Rightarrow> ws \<Rightarrow> ws" where
  "handleConnectionError reason now w = closeConnection reason now w"

definition createConnection :: "int \<Rightarrow> ws \<Rightarrow> ws" where
  "createConnection now w =
     (if ctor_throws w then
        handleConnectionError NETWORK_ERROR now (w\<lparr>metrics := recordError (metrics w)\<rparr>)
      else
        let w1 = w\<lparr>socket := Some (length (sockets w)),
                   sockets := sockets w @ [WS_CONNECTING]\<rparr>;
            (tid, wn) = setTimeout ConnectionTimer (connectionTimeout (config w1)) (win w1)
        in w1\<lparr>win := wn, connectionTimeoutId := Some tid\<rparr>)"

text \<open>\<^verbatim>\<open>connect\<close> throws on a destroyed service: \<open>Inl\<close> the message.\<close>

definition connect :: "int \<Rightarrow> ws \<Rightarrow> string + ws" where
  "connect now w =
     (if isDestroyed w then Inl ''WebSocketService has been destroyed''
      else if state w = CONNECTING \<or> state w = CONNECTED then Inr w
      else Inr (createConnection now
                  (setState CONNECTING now (w\<lparr>isManualDisconnect := False\<rparr>))))"

definition reconnection_cancel :: "ws \<Rightarrow> ws" where
  "reconnection_cancel w =
     (case cancel (reconnection w, win w) of (r, wn) \<Rightarrow> w\<lparr>reconnection := r, win := wn\<rparr>)"

definition disconnect :: "int \<Rightarrow> ws \<Rightarrow> ws" where
  "disconnect now w =
     closeConnection MANUAL now
       (heartbeat_stop (reconnection_cancel (w\<lparr>isManualDisconnect := True\<rparr>)))"

record SendOptions =
  opt_queue :: "bool option"        \<comment> \<open>\<^verbatim>\<open>options.queue\<close>, \<open>None\<close> when absent\<close>
  opt_onSuccess :: "cb option"
  opt_onError :: "cb option"

record SendResult =
  success :: bool
  queued :: bool
  res_error :: "string option"
  res_timestamp :: int

text \<open>The \<^verbatim>\<open>catch\<close> block of \<^verbatim>\<open>send\<close>, for an error with message \<open>msg\<close>.\<close>

definition send_failed :: "string \<Rightarrow> SendOptions \<Rightarrow> int \<Rightarrow> ws \<Rightarrow> ws \<times> SendResult" where
  "send_failed msg options now w =
     (let w1 = w\<lparr>metrics := recordError (metrics w)\<rparr>;
          w2 = emit (Ev_ERROR ''send'' (''Failed to send message: '' @ msg) now) w1;
          w3 = (case opt_onError options of
                  Some f \<Rightarrow> w2\<lparr>trace := trace w2 @ [Callback (CallOnError f msg)]\<rparr>
                | None \<Rightarrow> w2)
      in (w3, \<lparr>success = False, queued = False, res_error = Some msg, res_timestamp = now\<rparr>))"

text \<open>\<^verbatim>\<open>socket.send\<close> throws on a socket that is still connecting and takes the frame
  otherwise; \<open>''InvalidStateError''\<close> stands for the message of what it throws.\<close>

definition send :: "command \<Rightarrow> SendOptions \<Rightarrow> int \<Rightarrow> ws \<Rightarrow> ws \<times> SendResult" where
  "send cmd options now w =
     (if state w \<noteq> CONNECTED then
        (if opt_queue options \<noteq> Some False
            \<and> \<not> isFull (maxQueueSize (config w)) (messageQueue w) then
           (case enqueue (maxQueueSize (config w)) cmd (opt_onSuccess options)
                   (opt_onError options) now (messageQueue w) of
              (q, calls, added) \<Rightarrow>
                (w\<lparr>messageQueue := q, trace := trace w @ map Callback calls\<rparr>,
                 \<lparr>success = False, queued = True, res_error = None, res_timestamp = now\<rparr>))
         else
           ((case opt_onError options of
               Some f \<Rightarrow> w\<lparr>trace := trace w @ [Callback (CallOnError f ''Not connected to server'')]\<rparr>
             | None \<Rightarrow> w),
            \<lparr>success = False, queued = False, res_error = Some ''Not connected to server'',
              res_timestamp = now\<rparr>))
      else
        (case serializeClientCommand cmd of
           Inl msg \<Rightarrow> send_failed msg options now w
         | Inr serialized \<Rightarrow>
             if (case socket w of
                   Some sid \<Rightarrow> readyState_of sid w = WS_CONNECTING
                 | None \<Rightarrow> False)
             then send_failed ''InvalidStateError'' options now w
             else
               let w1 = (case socket w of
                           Some sid \<Rightarrow> w\<lparr>trace := trace w @ [SocketSend sid serialized]\<rparr>
                         | None \<Rightarrow> w);
                   w2 = w1\<lparr>metrics := recordMessageSent (metrics w1)\<rparr>;
                   w3 = emit (Ev_MESSAGE_SENT cmd serialized now) w2;
                   w4 = (case opt_onSuccess options of
                           Some f \<Rightarrow> w3\<lparr>trace := trace w3 @ [Callback (CallOnSuccess f)]\<rparr>
                         | None \<Rightarrow> w3)
               in (w4, \<lparr>success = True, queued = False, res_error = None,
                         res_timestamp = now\<rparr>)))"

definition flushQueue :: "int \<Rightarrow> ws \<Rightarrow> ws" where
  "flushQueue now w =
     (if isEmpty (messageQueue w) then w
      else
        (case flush (messageQueue w) of
           (messages, q) \<Rightarrow>
             foldl (\<lambda>w' message.
                      fst (send (command message)
                             \<lparr>opt_queue = None, opt_onSuccess = onSuccess message,
                               opt_onError = onError message\<rparr> now w'))
                   (w\<lparr>messageQueue := q\<rparr>) messages))"

definition isConnected :: "ws \<Rightarrow> bool" where
  "isConnected w = (state w = CONNECTED)"

definition isAuth :: "ws \<Rightarrow> bool" where
  "isAuth w = isAuthenticated w"

definition startHeartbeat :: "ws \<Rightarrow> ws" where
  "startHeartbeat w =
     (if \<not> js_greater (hb_interval (heartbeat_config (config w))) (Finite 0) then w
      else
        (case start (heartbeat_config (config w)) PingFn HbTimeoutFn (Some LatencyFn)
                (heartbeat w, win w) of
           (h, wn) \<Rightarrow> w\<lparr>heartbeat := h, win := wn\<rparr>))"

definition handleOpen :: "int \<Rightarrow> ws \<Rightarrow> ws" where
  "handleOpen now w =
     (let w1 = clearConnectionTimeout w;
          w2 = setState CONNECTED now w1;
          w3 = w2\<lparr>metrics := recordConnect now (metrics w2)\<rparr>;
          w4 = (if attempts (reconnection w3) > 0
                then w3\<lparr>metrics := recordReconnectSuccess (metrics w3)\<rparr> else w3);
          n = attempts (reconnection w4);
          w5 = (case reset (reconnection_config (config w4)) (reconnection w4, win w4) of
                  (r, wn) \<Rightarrow> w4\<lparr>reconnection := r, win := wn\<rparr>);
          w6 = emit (Ev_CONNECTED now n) w5;
          w7 = startHeartbeat w6
      in flushQueue now w7)"

text \<open>The bodies of the second and third argument of \<^verbatim>\<open>heartbeat.start\<close>, run
  for each call the manager makes.\<close>

fun run_hb_call :: "int \<Rightarrow> ws \<Rightarrow> closure hb_call \<Rightarrow> ws" where
  "run_hb_call now w (CallPong LatencyFn latency) =
     w\<lparr>metrics := recordLatency latency (metrics w)\<rparr>"
| "run_hb_call now w (CallTimeout HbTimeoutFn) = handleConnectionError TIMEOUT now w"
| "run_hb_call now w c = w"

definition handleMessage :: "frame \<Rightarrow> int \<Rightarrow> ws \<Rightarrow> ws" where
  "handleMessage fr now w =
     (let w1 = w\<lparr>metrics := recordMessageReceived (metrics w)\<rparr> in
      (case parse fr of
         ParseThrows msg \<Rightarrow>
           emit (Ev_ERROR ''parse'' (''Failed to parse message: '' @ msg) now)
             (w1\<lparr>metrics := recordError (metrics w1)\<rparr>)
       | ObjectWithType ty \<Rightarrow>
           if ty = ''PONG'' then
             (case handlePong now (heartbeat w1, win w1) of
                (h, wn, calls) \<Rightarrow>
                  foldl (run_hb_call now) (w1\<lparr>heartbeat := h, win := wn\<rparr>) calls)
           else emit (Ev_MESSAGE fr now) w1
       | OtherValue \<Rightarrow> emit (Ev_MESSAGE fr now) w1))"

definition handleError :: "ws \<Rightarrow> ws" where
  "handleError w = w"

fun run_rm_call :: "int \<Rightarrow> ws \<Rightarrow> closure rm_call \<Rightarrow> ws" where
  "run_rm_call now w (CallAttempt AttemptFn attempt maxAtt delay) =
     emit (Ev_RECONNECT_ATTEMPT attempt maxAtt delay now)
       (w\<lparr>metrics := recordReconnectAttempt (metrics w)\<rparr>)"
| "run_rm_call now w (CallMaxAttemptsReached ExhaustedFn) =
     emit (Ev_ERROR ''connection'' ''Maximum reconnection attempts exceeded'' now) w"
| "run_rm_call now w (CallReconnect ConnectFn) =
     (case connect now w of Inl msg \<Rightarrow> w | Inr w' \<Rightarrow> w')"
| "run_rm_call now w c = w"

definition scheduleReconnect :: "int \<Rightarrow> ws \<Rightarrow> ws" where
  "scheduleReconnect now w =
     (let w1 = setState RECONNECTING now w in
      (case schedule (reconnection_config (config w1)) ConnectFn (Some AttemptFn)
              (Some ExhaustedFn) (reconnection w1, win w1) of
         (r, wn, calls) \<Rightarrow>
           foldl (run_rm_call now) (w1\<lparr>reconnection := r, win := wn\<rparr>) calls))"

text \<open>The close event carries \<^verbatim>\<open>event.code\<close> and \<^verbatim>\<open>event.reason\<close>.\<close>

definition close_reason :: "bool \<Rightarrow> nat \<Rightarrow> DisconnectReason" where
  "close_reason manual code =
     (if manual then MANUAL
      else if code = 1006 then NETWORK_ERROR
      else if code \<ge> 1000 \<and> code < 1004 then SERVER_CLOSED
      else UNKNOWN)"

definition handleClose :: "nat \<Rightarrow> string \<Rightarrow> int \<Rightarrow> ws \<Rightarrow> ws" where
  "handleClose code reasonText now w =
     (let w1 = clearConnectionTimeout w;
          w2 = heartbeat_stop w1;
          w3 = w2\<lparr>metrics := recordDisconnect now (metrics w2)\<rparr>;
          wasAuthenticated = isAuthenticated w3;
          w4 = w3\<lparr>isAuthenticated := False\<rparr>;
          reason = close_reason (isManualDisconnect w4) code;
          w5 = setState CLOSED now w4;
          w6 = emit (Ev_DISCONNECTED reason code reasonText wasAuthenticated now) w5
      in if \<not> isManualDisconnect w6 \<and> autoReconnect (config w6)
         then scheduleReconnect now w6 else w6)"

definition setAuthenticated :: "bool \<Rightarrow> int \<Rightarrow> ws \<Rightarrow> ws" where
  "setAuthenticated b now w =
     (if isAuthenticated w \<noteq> b
      then emit (Ev_AUTH_CHANGE b now) (w\<lparr>isAuthenticated := b\<rparr>) else w)"

definition clearQueue :: "ws \<Rightarrow> ws" where
  "clearQueue w = w\<lparr>messageQueue := []\<rparr>"

definition destroy :: "int \<Rightarrow> ws \<Rightarrow> ws" where
  "destroy now w = (disconnect now (w\<lparr>isDestroyed := True\<rparr>))\<lparr>messageQueue := []\<rparr>"

definition getMetrics :: "ws \<Rightarrow> ws" where
  "getMetrics w =
     w\<lparr>metrics := (metrics w)\<lparr>queueSize := length (messageQueue w),
                               currentReconnectDelay := currentDelay (reconnection w)\<rparr>\<rparr>"

subsection \<open>Timers running\<close>

text \<open>The first argument of \<^verbatim>\<open>heartbeat.start\<close>: its result and what it does.\<close>

definition ping_closure :: "ws \<Rightarrow> ping_result \<times> ws" where
  \<open>ping_closure w =
     (if \<not> isConnected w then (PingNotSent, w)
      else
        (case socket w of
           None \<Rightarrow> (PingNotSent, w)
         | Some sid \<Rightarrow>
             if readyState_of sid w = WS_CONNECTING then (PingNotSent, w)
             else (PingSent, w\<lparr>trace := trace w @ [SocketSend sid ''{"type":"PING"}'']\<rparr>)))\<close>

definition heartbeatTick :: "int \<Rightarrow> ws \<Rightarrow> ws" where
  "heartbeatTick now w =
     (case sendPing (heartbeat w) of
        None \<Rightarrow> w
      | Some f \<Rightarrow>
          (case ping_closure w of
             (res, w1) \<Rightarrow>
               (case sendHeartbeat (heartbeat_config (config w1)) now res
                       (heartbeat w1, win w1) of
                  (h, wn, calls) \<Rightarrow> w1\<lparr>heartbeat := h, win := wn\<rparr>)))"

definition heartbeatTimeoutFired :: "int \<Rightarrow> ws \<Rightarrow> ws" where
  "heartbeatTimeoutFired now w =
     (case handleHeartbeatTimeout (heartbeat w) of
        (h, calls) \<Rightarrow> foldl (run_hb_call now) (w\<lparr>heartbeat := h\<rparr>) calls)"

definition reconnectTimerFired :: "int \<Rightarrow> ws \<Rightarrow> ws" where
  "reconnectTimerFired now w =
     (case executeReconnect (reconnection w) of
        (r, calls) \<Rightarrow> foldl (run_rm_call now) (w\<lparr>reconnection := r\<rparr>) calls)"

definition connectionTimeoutFired :: "int \<Rightarrow> ws \<Rightarrow> ws" where
  "connectionTimeoutFired now w =
     (if state w = CONNECTING then handleConnectionError TIMEOUT now w else w)"

fun timer_fired :: "timer_kind \<Rightarrow> int \<Rightarrow> ws \<Rightarrow> ws" where
  "timer_fired ConnectionTimer now w = connectionTimeoutFired now w"
| "timer_fired ReconnectTimer now w = reconnectTimerFired now w"
| "timer_fired HeartbeatTick now w = heartbeatTick now w"
| "timer_fired HeartbeatTimer now w = heartbeatTimeoutFired now w"

subsection \<open>Executions\<close>

text \<open>
  What can happen to a service: a call of a public method, an event of one of the
  sockets it created, a timer of the table running. The browser delivers the open event
  only to a socket that is connecting and not yet closed by \<^verbatim>\<open>close()\<close>, messages only
  to an open or closing socket, and one close event to every socket; a timer runs only
  while it is in the table. \<open>None\<close> is an input the browser cannot deliver.
\<close>

datatype input =
    Connect
  | Disconnect
  | Send command SendOptions
  | SetAuthenticated bool
  | ClearQueue
  | GetMetrics
  | Destroy
  | OnOpen nat
  | OnMessage nat frame
  | OnError nat
  | OnClose nat nat string
  | Timer nat

fun step :: "input \<Rightarrow> int \<Rightarrow> ws \<Rightarrow> ws option" where
  "step Connect now w = Some (case connect now w of Inl msg \<Rightarrow> w | Inr w' \<Rightarrow> w')"
| "step Disconnect now w = Some (disconnect now w)"
| "step (Send cmd options) now w = Some (fst (send cmd options now w))"
| "step (SetAuthenticated b) now w = Some (setAuthenticated b now w)"
| "step ClearQueue now w = Some (clearQueue w)"
| "step GetMetrics now w = Some (getMetrics w)"
| "step Destroy now w = Some (destroy now w)"
| "step (OnOpen sid) now w =
     (if sid < length (sockets w) \<and> readyState_of sid w = WS_CONNECTING
      then Some (handleOpen now (w\<lparr>sockets := (sockets w)[sid := WS_OPEN]\<rparr>))
      else None)"
| "step (OnMessage sid fr) now w =
     (if sid < length (sockets w)
         \<and> (readyState_of sid w = WS_OPEN \<or> readyState_of sid w = WS_CLOSING)
      then Some (handleMessage fr now w) else None)"
| "step (OnError sid) now w =
     (if sid < length (sockets w) \<and> readyState_of sid w \<noteq> WS_CLOSED
      then Some (handleError w) else None)"
| "step (OnClose sid code reasonText) now w =
     (if sid < length (sockets w) \<and> readyState_of sid w \<noteq> WS_CLOSED
      then Some (handleClose code reasonText now (w\<lparr>sockets := (sockets w)[sid := WS_CLOSED]\<rparr>))
      else None)"
| "step (Timer tid) now w =
     (case fire tid (win w) of
        None \<Rightarrow> None
      | Some (k, wn) \<Rightarrow> Some (timer_fired k now (w\<lparr>win := wn\<rparr>)))"

text \<open>A run: inputs with the clock reading at each.\<close>

fun run :: "(input \<times> int) list \<Rightarrow> ws \<Rightarrow> ws option" where
  "run [] w = Some w"
| "run ((i, now) # rest) w =
     (case step i now w of None \<Rightarrow> None | Some w' \<Rightarrow> run rest w')"

text \<open>The events handed to \<^verbatim>\<open>emit\<close>, in order.\<close>

definition emitted :: "effect list \<Rightarrow> event list" where
  "emitted es = concat (map (\<lambda>e. case e of Emit ev \<Rightarrow> [ev] | _ \<Rightarrow> []) es)"

text \<open>The effects a handler added: the trace after it, without the trace before it.\<close>

definition effects_since :: "ws \<Rightarrow> ws \<Rightarrow> effect list" where
  "effects_since w w' = drop (length (trace w)) (trace w')"

subsection \<open>The log of state changes\<close>

text \<open>The previous and the current state of every \<^verbatim>\<open>state_change\<close> event, in order.\<close>

fun state_changes :: "event list \<Rightarrow> (WebSocketState \<times> WebSocketState) list" where
  "state_changes [] = []"
| "state_changes (Ev_STATE_CHANGE p c t # es) = (p, c) # state_changes es"
| "state_changes (ev # es) = state_changes es"

text \<open>
  \<open>follows s xs s'\<close>: the changes \<open>xs\<close> lead from \<open>s\<close> to \<open>s'\<close>, each starting where the
  one before ended, and none from a state to itself.
\<close>

fun follows ::
  "WebSocketState \<Rightarrow> (WebSocketState \<times> WebSocketState) list \<Rightarrow> WebSocketState \<Rightarrow> bool" where
  "follows s [] s' = (s = s')"
| "follows s ((p, c) # xs) s' = (p = s \<and> c \<noteq> p \<and> follows c xs s')"

text \<open>The reasons that \<^verbatim>\<open>handleClose\<close> computes.\<close>

fun computed_reason :: "event \<Rightarrow> bool" where
  "computed_reason (Ev_DISCONNECTED r c t a n) =
     (r = MANUAL \<or> r = NETWORK_ERROR \<or> r = SERVER_CLOSED \<or> r = UNKNOWN)"
| "computed_reason ev = True"

text \<open>
  \<open>extends w w'\<close>: the trace of \<open>w'\<close> is the trace of \<open>w\<close> with more effects at its end,
  the \<^verbatim>\<open>state_change\<close> events among these are exactly the changes from the state of \<open>w\<close>
  to the state of \<open>w'\<close>, and the \<^verbatim>\<open>disconnected\<close> events among them carry a computed
  reason.
\<close>

definition extends :: "ws \<Rightarrow> ws \<Rightarrow> bool" where
  "extends w w' =
     (trace w' = trace w @ effects_since w w'
      \<and> follows (state w) (state_changes (emitted (effects_since w w'))) (state w')
      \<and> list_all computed_reason (emitted (effects_since w w')))"

subsection \<open>Example values\<close>

definition example_message :: "string \<Rightarrow> cb \<Rightarrow> string QueuedMessage" where
  "example_message c f = \<lparr>command = c, timestamp = 0, send_attempts = 0, onSuccess = None,
     onError = Some f\<rparr>"

definition exhausted_manager :: "closure rm" where
  "exhausted_manager = \<lparr>attempts = 3, currentDelay = Finite 800, timeoutId = None,
     isScheduled = False, reconnectFn = Some ConnectFn, onAttempt = Some AttemptFn,
     onMaxAttemptsReached = Some ExhaustedFn\<rparr>"

section \<open>Properties of the numbers\<close>

lemma bitlen_numeral:
  "bitlen (numeral k) = bitlen (numeral k div 2) + 1"
  "bitlen 1 = 1"
  by (subst compute_bitlen; simp)+

lemmas round64_eval =
  round64_def binade_def pow2_def round_half_even_def Let_def bitlen_numeral

lemma round_half_even_of_int: "round_half_even (real_of_int j) = j"
  by (simp add: round_half_even_def)

lemma round64_of_int:
  assumes "\<bar>k\<bar> < 2 ^ 53"
  shows "round64 (real_of_int k) = Finite (real_of_int k)"
proof (cases "k = 0")
  case True
  then show ?thesis by (simp add: round64_def)
next
  case False
  define a where "a = \<bar>k\<bar>"
  have a: "0 < a" "a < 2 ^ 53" using False assms by (simp_all add: a_def)
  define e where "e = bitlen a - 1"
  have e0: "0 \<le> e" using a(1) by (simp add: e_def bitlen_alt_def)
  have "bitlen a \<le> 53" using a(2) by (simp add: bitlen_le_iff_power)
  then have e52: "e \<le> 52" by (simp add: e_def)
  have abs: "\<bar>real_of_int k\<bar> = real_of_int a" by (simp add: a_def)
  have "1 \<le> real_of_int a" using a(1) by simp
  then have b: "binade (real_of_int k) = e"
    unfolding binade_def abs by (simp add: e_def)
  define s where "s = nat (52 - e)"
  have q: "max (binade (real_of_int k)) (- 1022) - 52 = - int s"
    using b e0 e52 by (simp add: s_def)
  have p: "pow2 (- int s) = 1 / 2 ^ s"
    by (cases "s = 0") (simp_all add: pow2_def)
  have sc: "real_of_int k / pow2 (- int s) = real_of_int (k * 2 ^ s)"
    by (simp add: p)
  have r: "real_of_int (round_half_even (real_of_int k / pow2 (- int s))) * pow2 (- int s)
      = real_of_int k"
    unfolding sc round_half_even_of_int by (simp add: p)
  have "\<bar>real_of_int k\<bar> < 2 ^ 53" using assms
    by (metis of_int_abs of_int_less_numeral_power_cancel_iff)
  also have "(2::real) ^ 53 \<le> 2 ^ 1024" by (rule power_increasing) simp_all
  finally have big: "\<bar>real_of_int k\<bar> < pow2 1024" by (simp add: pow2_def)
  then have "\<not> real_of_int k \<ge> pow2 1024" "\<not> real_of_int k \<le> - pow2 1024" by linarith+
  then show ?thesis
    using False by (simp add: round64_def q r Let_def)
qed

text \<open>A product of whole numbers below \<open>2 ^ 53\<close> is exact.\<close>

lemma js_times_of_int:
  "\<bar>i * j\<bar> < 2 ^ 53 \<Longrightarrow>
   js_times (Finite (real_of_int i)) (Finite (real_of_int j)) = Finite (real_of_int (i * j))"
  using round64_of_int [of "i * j"] by simp

text \<open>A product that leaves the range is an infinity; one below the smallest subnormal
  number is zero.\<close>

lemma js_times_overflows: "js_times (Finite (2 ^ 1023)) (Finite 2) = PlusInfinity"
  by (simp add: round64_eval)

lemma js_times_underflows: "js_times (Finite (1 / 2 ^ 1074)) (Finite (1 / 2)) = Finite 0"
  by (simp add: round64_eval)

section \<open>Properties of the reconnection delays\<close>

lemma schedule_times_fields:
  "n \<le> maxAttempts cfg \<Longrightarrow>
   attempts (fst (schedule_times cfg f a m n (rm_new cfg, wn))) = n \<and>
   currentDelay (fst (schedule_times cfg f a m n (rm_new cfg, wn))) = stored_delay cfg n"
proof (induction n)
  case 0
  then show ?case by (simp add: rm_new_def)
next
  case (Suc n)
  then show ?case
    by (auto simp: schedule_def Let_def setTimeout_def split: prod.splits option.splits)
qed

lemma armed_delay_schedule:
  "attempts r < maxAttempts cfg \<Longrightarrow>
   schedule cfg f a m (r, wn) = (r', wn', calls) \<Longrightarrow>
   armed_delay (r', wn') = Some (Math_min (currentDelay r) (maxDelay cfg))"
  by (auto simp: armed_delay_def schedule_def Let_def setTimeout_def timer_lookup_def
      split: prod.splits option.splits)

lemma stored_delay_integral:
  assumes "initialDelay cfg = Finite (real_of_int d)"
    and "delayMultiplier cfg = Finite (real_of_int k)"
    and "0 \<le> d" and "1 \<le> k" and "d * k ^ n < 2 ^ 53"
  shows "stored_delay cfg n = Finite (real_of_int (d * k ^ n))"
  using assms(5)
proof (induction n)
  case 0
  then show ?case by (simp add: assms(1))
next
  case (Suc n)
  have eq: "d * k ^ Suc n = d * k ^ n * k" by simp
  have "d * k ^ n * 1 \<le> d * k ^ n * k"
    using assms(3,4) by (intro mult_left_mono) simp_all
  with Suc.prems eq have less: "d * k ^ n < 2 ^ 53" by linarith
  have "0 \<le> d * k ^ n * k" using assms(3,4) by simp
  with Suc.prems eq have "\<bar>d * k ^ n * k\<bar> < 2 ^ 53" by linarith
  from js_times_of_int [OF this] Suc.IH [OF less]
  show ?case by (simp add: assms(2) mult.assoc)
qed

text \<open>Cancelling a timer and running one leave the attempt count and the stored delay as
  they are: only \<^verbatim>\<open>schedule\<close> and \<^verbatim>\<open>reset\<close> write them.\<close>

lemma cancel_keeps_backoff:
  "attempts (fst (cancel (r, wn))) = attempts r"
  "currentDelay (fst (cancel (r, wn))) = currentDelay r"
  by (simp_all add: cancel_def split: option.splits)

lemma executeReconnect_keeps_backoff:
  "attempts (fst (executeReconnect r)) = attempts r"
  "currentDelay (fst (executeReconnect r)) = currentDelay r"
  by (simp_all add: executeReconnect_def)

text \<open>
  C2 (as amended). On a manager fresh from its constructor (or from \<^verbatim>\<open>reset\<close>), the
  \<open>n+1\<close>-th of consecutive \<^verbatim>\<open>schedule\<close> calls arms a timer as long as \<open>n\<close> is below
  the attempt limit, and its delay is \<^verbatim>\<open>Math.min\<close> of the stored delay and the
  maximum delay, the stored delay being the initial delay, multiplied in binary64 and
  rounded down once per earlier call. When the initial delay is a whole number, not
  negative, the multiplier a whole number of at least 1, and the product
  \<open>initialDelay * multiplier ^ n\<close> is below \<open>2 ^ 53\<close>, every one of these products is
  exact and the delay is \<^verbatim>\<open>Math.min\<close> of \<open>initialDelay * multiplier ^ n\<close> and the
  maximum delay.
\<close>

theorem C2_nth_delay:
  assumes "n < maxAttempts cfg"
  shows "armed_delay (schedule_times cfg f a m (Suc n) (rm_new cfg, wn))
           = Some (Math_min (stored_delay cfg n) (maxDelay cfg))
       \<and> (initialDelay cfg = Finite (real_of_int d)
            \<and> delayMultiplier cfg = Finite (real_of_int k)
            \<and> 0 \<le> d \<and> 1 \<le> k \<and> d * k ^ n < 2 ^ 53 \<longrightarrow>
            armed_delay (schedule_times cfg f a m (Suc n) (rm_new cfg, wn))
              = Some (Math_min (Finite (real_of_int (d * k ^ n))) (maxDelay cfg)))"
proof -
  obtain r w' where st: "schedule_times cfg f a m n (rm_new cfg, wn) = (r, w')"
    by (cases "schedule_times cfg f a m n (rm_new cfg, wn)")
  from assms have le: "n \<le> maxAttempts cfg" by simp
  from schedule_times_fields [OF le, of f a m wn] st
  have fields: "attempts r = n" "currentDelay r = stored_delay cfg n" by simp_all
  obtain r' w'' calls where sc: "schedule cfg f a m (r, w') = (r', w'', calls)"
    by (cases "schedule cfg f a m (r, w')")
  from fields assms have "attempts r < maxAttempts cfg" by simp
  from armed_delay_schedule [OF this sc] fields
  have "armed_delay (r', w'') = Some (Math_min (stored_delay cfg n) (maxDelay cfg))" by simp
  with st sc have first: "armed_delay (schedule_times cfg f a m (Suc n) (rm_new cfg, wn))
           = Some (Math_min (stored_delay cfg n) (maxDelay cfg))" by simp
  show ?thesis
    using first stored_delay_integral [of cfg d k n] by simp
qed

text \<open>The scenario of the specification: limit 3, delays 100, 200, 400.\<close>

theorem C2_nth_delay_witness:
  "(2::nat) < maxAttempts \<lparr>maxAttempts = 3, initialDelay = Finite 100, maxDelay = Finite 1000,
                            delayMultiplier = Finite 2\<rparr>
   \<and> (0::int) \<le> 100 \<and> (1::int) \<le> 2 \<and> (100::int) * 2 ^ 2 < 2 ^ 53
   \<and> armed_delay (schedule_times
         \<lparr>maxAttempts = 3, initialDelay = Finite 100, maxDelay = Finite 1000,
           delayMultiplier = Finite 2\<rparr>
         ConnectFn None None (Suc 2)
         (rm_new \<lparr>maxAttempts = 3, initialDelay = Finite 100, maxDelay = Finite 1000,
                   delayMultiplier = Finite 2\<rparr>,
          window_init)) = Some (Finite 400)"
proof -
  let ?c = "\<lparr>maxAttempts = 3, initialDelay = Finite 100, maxDelay = Finite 1000,
             delayMultiplier = Finite 2\<rparr>"
  have h: "(2::nat) < maxAttempts ?c" by simp
  have i: "initialDelay ?c = Finite (real_of_int 100) \<and> delayMultiplier ?c = Finite (real_of_int 2)
      \<and> (0::int) \<le> 100 \<and> (1::int) \<le> 2 \<and> (100::int) * 2 ^ 2 < 2 ^ 53" by simp
  from C2_nth_delay [OF h, of ConnectFn None None window_init 100 2] i
  have "armed_delay (schedule_times ?c ConnectFn None None (Suc 2) (rm_new ?c, window_init))
          = Some (Math_min (Finite (real_of_int (100 * 2 ^ 2))) (maxDelay ?c))"
    by blast
  then show ?thesis using h by simp
qed

text \<open>
  C2 as stated fails with the default configuration (1000 ms, factor 1.5, at most
  30000 ms, 10 attempts): the seventh delay is 11389, since 5062.5 was rounded down to
  5062 on the way, and not the 11390 of the closed formula. Every product on the way is
  a multiple of one half below \<open>2 ^ 53\<close>, so binary64 computes it exactly.
\<close>

theorem C2_counterexample:
  "armed_delay (schedule_times
      \<lparr>maxAttempts = 10, initialDelay = Finite 1000, maxDelay = Finite 30000,
        delayMultiplier = Finite (3 / 2)\<rparr>
      ConnectFn None None 7
      (rm_new \<lparr>maxAttempts = 10, initialDelay = Finite 1000, maxDelay = Finite 30000,
                delayMultiplier = Finite (3 / 2)\<rparr>,
       window_init)) = Some (Finite 11389)
   \<and> real_of_int \<lfloor>min (1000 * (3 / 2) ^ (7 - 1)) (30000::real)\<rfloor> = 11390"
  by (simp add: armed_delay_def schedule_def rm_new_def window_init_def setTimeout_def
      timer_lookup_def numeral_eq_Suc round64_eval)

text \<open>
  The model follows the doubles where exact arithmetic would not: with the literal
  \<^verbatim>\<open>1.4\<close> the third delay is 1959 (1400 times the double of 1.4 is just below
  1960), with \<^verbatim>\<open>1.15\<close> the fifth is 1747, and with 10 and \<^verbatim>\<open>0.7\<close> the second is 7
  (the double product is exactly 7, the product with the double's own value is below).
\<close>

lemma schedule_follows_doubles:
  "armed_delay (schedule_times
      \<lparr>maxAttempts = 10, initialDelay = Finite 1000, maxDelay = Finite 30000,
        delayMultiplier = round64 (14 / 10)\<rparr>
      ConnectFn None None 3
      (rm_new \<lparr>maxAttempts = 10, initialDelay = Finite 1000, maxDelay = Finite 30000,
                delayMultiplier = round64 (14 / 10)\<rparr>,
       window_init)) = Some (Finite 1959)"
  "armed_delay (schedule_times
      \<lparr>maxAttempts = 10, initialDelay = Finite 1000, maxDelay = Finite 30000,
        delayMultiplier = round64 (115 / 100)\<rparr>
      ConnectFn None None 5
      (rm_new \<lparr>maxAttempts = 10, initialDelay = Finite 1000, maxDelay = Finite 30000,
                delayMultiplier = round64 (115 / 100)\<rparr>,
       window_init)) = Some (Finite 1747)"
  "armed_delay (schedule_times
      \<lparr>maxAttempts = 10, initialDelay = Finite 10, maxDelay = Finite 30000,
        delayMultiplier = round64 (7 / 10)\<rparr>
      ConnectFn None None 2
      (rm_new \<lparr>maxAttempts = 10, initialDelay = Finite 10, maxDelay = Finite 30000,
                delayMultiplier = round64 (7 / 10)\<rparr>,
       window_init)) = Some (Finite 7)"
  by (simp_all add: armed_delay_def schedule_def rm_new_def window_init_def setTimeout_def
      timer_lookup_def numeral_eq_Suc round64_eval)

section \<open>Properties of the queue\<close>

text \<open>
  C4 (as amended). For a capacity of at least 1 and a queue holding exactly that many
  entries, \<^verbatim>\<open>enqueue\<close> first removes the oldest entry and calls its error callback, if it
  has one, with the overflow message, then appends the new entry at the tail; the other
  entries keep their order and the size is the capacity again.
\<close>

theorem C4_enqueue_at_capacity:
  assumes "0 < maxSize" and "length q = maxSize"
  shows "\<exists>oldest rest. q = oldest # rest
     \<and> drop_oldest maxSize q =
         (rest, case onError oldest of
                  Some f \<Rightarrow> [CallOnError f ''Message dropped: queue overflow'']
                | None \<Rightarrow> [])
     \<and> enqueue maxSize cmd onS onE now q =
         (rest @ [\<lparr>command = cmd, timestamp = now, send_attempts = 0,
                   onSuccess = onS, onError = onE\<rparr>],
          (case onError oldest of
             Some f \<Rightarrow> [CallOnError f ''Message dropped: queue overflow'']
           | None \<Rightarrow> []),
          True)
     \<and> length (fst (enqueue maxSize cmd onS onE now q)) = maxSize"
proof (cases q)
  case Nil
  with assms show ?thesis by simp
next
  case (Cons oldest rest)
  with assms show ?thesis
    by (simp add: enqueue_def drop_oldest_def)
qed

text \<open>The scenario of the specification: capacity 2, A and B queued, C arrives.\<close>

theorem C4_enqueue_at_capacity_witness:
  "(0::nat) < 2 \<and> length [example_message ''A'' 1, example_message ''B'' 2] = 2
   \<and> enqueue 2 ''C'' None (Some 3) 0 [example_message ''A'' 1, example_message ''B'' 2] =
       ([example_message ''B'' 2, example_message ''C'' 3],
        [CallOnError 1 ''Message dropped: queue overflow''], True)"
  using C4_enqueue_at_capacity [of 2 "[example_message ''A'' 1, example_message ''B'' 2]"
      "''C''" None "Some 3" 0]
  by (simp add: example_message_def)

text \<open>
  C4 as stated fails for capacity 0: the empty queue has as many entries as its
  capacity, there is no oldest entry to drop, no callback is called, and the queue holds
  one entry afterwards.
\<close>

theorem C4_counterexample:
  "length ([] :: string QueuedMessage list) = 0
   \<and> enqueue 0 ''A'' None (Some 1) 0 [] =
        ([\<lparr>command = ''A'', timestamp = 0, send_attempts = 0, onSuccess = None,
            onError = Some 1\<rparr>], [], True)
   \<and> length (fst (enqueue 0 ''A'' None (Some 1) 0 [])) \<noteq> 0"
  by (simp add: enqueue_def drop_oldest_def)

text \<open>A queue that starts empty never holds more than its capacity, if that is positive.\<close>

lemma enqueue_bounded:
  "0 < maxSize \<Longrightarrow> length q \<le> maxSize
     \<Longrightarrow> length (fst (enqueue maxSize cmd onS onE now q)) \<le> maxSize"
  by (cases q) (auto simp: enqueue_def drop_oldest_def)




section \<open>Properties of the heartbeat\<close>

lemma map_of_filter_fst: "map_of (filter (\<lambda>e. fst e \<noteq> k) xs) k = None"
  by (induction xs) auto

lemma timer_lookup_clearTimeout: "timer_lookup tid (clearTimeout tid wn) = None"
  by (simp add: timer_lookup_def clearTimeout_def map_of_filter_fst)

lemma fire_clearTimeout: "fire tid (clearTimeout tid wn) = None"
  by (simp add: fire_def timer_lookup_clearTimeout)

lemma timer_lookup_setTimeout:
  "setTimeout k d wn = (tid, wn') \<Longrightarrow> timer_lookup tid wn' = Some (k, d)"
  by (auto simp: setTimeout_def timer_lookup_def)

text \<open>A tick whose probe is not sent (the send function returns false or throws) leaves
  the timer table as it was.\<close>

lemma sendHeartbeat_not_sent:
  "sendPing h = Some f \<Longrightarrow> res \<noteq> PingSent \<Longrightarrow>
   sendHeartbeat cfg now res (h, wn) = (h\<lparr>lastPingTime := now\<rparr>, wn, [CallSendPing f])"
  by (cases res) (simp_all add: sendHeartbeat_def)

text \<open>
  A tick whose probe is sent puts one timer with the configured timeout into the table
  and stores its handle, over the handle that was stored before: a timer armed by an
  earlier tick stays in the table, and the manager no longer knows it.
\<close>

lemma sendHeartbeat_sent:
  assumes "sendPing h = Some f"
  shows "sendHeartbeat cfg now PingSent (h, wn) =
           (h\<lparr>lastPingTime := now, hb_timeoutId := Some (next_timer_id wn)\<rparr>,
            wn\<lparr>timer_list := (next_timer_id wn, HeartbeatTimer, hb_timeout cfg) # timer_list wn,
               next_timer_id := next_timer_id wn + 1\<rparr>,
            [CallSendPing f])"
  using assms by (simp add: sendHeartbeat_def setTimeout_def)

text \<open>\<^verbatim>\<open>handlePong\<close> takes the timer whose handle is stored out of the table, whatever
  else holds, and that timer only.\<close>

lemma handlePong_clears_stored_handle:
  "hb_timeoutId h = Some tid \<Longrightarrow>
   fst (snd (handlePong now (h, wn))) = clearTimeout tid wn
   \<and> hb_timeoutId (fst (handlePong now (h, wn))) = None"
  by (simp add: handlePong_def)

lemma handlePong_latency:
  "0 < lastPingTime h \<Longrightarrow> onPong h = Some p \<Longrightarrow>
   snd (snd (handlePong now (h, wn))) = [CallPong p (now - lastPingTime h)]"
  by (simp add: handlePong_def split: option.splits)

lemma handleHeartbeatTimeout_calls:
  "onTimeout h = Some g \<Longrightarrow>
   handleHeartbeatTimeout h = (h\<lparr>hb_timeoutId := None\<rparr>, [CallTimeout g])"
  by (simp add: handleHeartbeatTimeout_def)

section \<open>What the handlers of the service leave alone\<close>

lemma emitted_append [simp]: "emitted (xs @ ys) = emitted xs @ emitted ys"
  by (simp add: emitted_def)

lemma emitted_simps [simp]:
  "emitted [] = []"
  "emitted (Emit ev # es) = ev # emitted es"
  "emitted (Callback c # es) = emitted es"
  "emitted (SocketSend i s # es) = emitted es"
  "emitted (SocketClose i n s # es) = emitted es"
  by (simp_all add: emitted_def)

lemma clearConnectionTimeout_frame [simp]:
  "trace (clearConnectionTimeout w) = trace w"
  "state (clearConnectionTimeout w) = state w"
  "isAuthenticated (clearConnectionTimeout w) = isAuthenticated w"
  "isManualDisconnect (clearConnectionTimeout w) = isManualDisconnect w"
  "config (clearConnectionTimeout w) = config w"
  "reconnection (clearConnectionTimeout w) = reconnection w"
  "messageQueue (clearConnectionTimeout w) = messageQueue w"
  "heartbeat (clearConnectionTimeout w) = heartbeat w"
  "socket (clearConnectionTimeout w) = socket w"
  "sockets (clearConnectionTimeout w) = sockets w"
  by (simp_all add: clearConnectionTimeout_def split: option.splits)

lemma heartbeat_stop_frame [simp]:
  "trace (heartbeat_stop w) = trace w"
  "state (heartbeat_stop w) = state w"
  "isAuthenticated (heartbeat_stop w) = isAuthenticated w"
  "isManualDisconnect (heartbeat_stop w) = isManualDisconnect w"
  "config (heartbeat_stop w) = config w"
  "reconnection (heartbeat_stop w) = reconnection w"
  "messageQueue (heartbeat_stop w) = messageQueue w"
  "socket (heartbeat_stop w) = socket w"
  "sockets (heartbeat_stop w) = sockets w"
  by (simp_all add: heartbeat_stop_def stop_def Let_def split: prod.splits)

lemma setState_frame [simp]:
  "trace (setState s now w) =
     trace w @ (if state w = s then [] else [Emit (Ev_STATE_CHANGE (state w) s now)])"
  "state (setState s now w) = s"
  "isAuthenticated (setState s now w) = isAuthenticated w"
  "isManualDisconnect (setState s now w) = isManualDisconnect w"
  "config (setState s now w) = config w"
  "reconnection (setState s now w) = reconnection w"
  "messageQueue (setState s now w) = messageQueue w"
  "heartbeat (setState s now w) = heartbeat w"
  "win (setState s now w) = win w"
  "socket (setState s now w) = socket w"
  "sockets (setState s now w) = sockets w"
  by (simp_all add: setState_def emit_def)

lemma emit_frame [simp]:
  "trace (emit ev w) = trace w @ [Emit ev]"
  "state (emit ev w) = state w"
  "isAuthenticated (emit ev w) = isAuthenticated w"
  "isManualDisconnect (emit ev w) = isManualDisconnect w"
  "config (emit ev w) = config w"
  "reconnection (emit ev w) = reconnection w"
  "messageQueue (emit ev w) = messageQueue w"
  "heartbeat (emit ev w) = heartbeat w"
  "win (emit ev w) = win w"
  "socket (emit ev w) = socket w"
  "sockets (emit ev w) = sockets w"
  by (simp_all add: emit_def)

lemma scheduleReconnect_frame:
  "state (scheduleReconnect now w) = RECONNECTING"
  "isAuthenticated (scheduleReconnect now w) = isAuthenticated w"
  "trace (scheduleReconnect now w) =
     trace w
       @ (if state w = RECONNECTING then []
          else [Emit (Ev_STATE_CHANGE (state w) RECONNECTING now)])
       @ (if maxReconnectAttempts (config w) \<le> attempts (reconnection w)
          then [Emit (Ev_ERROR ''connection'' ''Maximum reconnection attempts exceeded'' now)]
          else [Emit (Ev_RECONNECT_ATTEMPT (Suc (attempts (reconnection w)))
                  (maxReconnectAttempts (config w))
                  (Math_min (currentDelay (reconnection w)) (maxReconnectDelay (config w)))
                  now)])"
  by (auto simp: scheduleReconnect_def schedule_def Let_def setTimeout_def reconnection_config_def
      split: prod.splits)

lemma send_frame [simp]:
  "reconnection (fst (send cmd options now w)) = reconnection w"
  "config (fst (send cmd options now w)) = config w"
  "state (fst (send cmd options now w)) = state w"
  by (auto simp: send_def send_failed_def Let_def split: sum.splits option.splits prod.splits)

lemma foldl_send_frame:
  "reconnection (foldl (\<lambda>w' message. fst (send (command message)
        \<lparr>opt_queue = None, opt_onSuccess = onSuccess message, opt_onError = onError message\<rparr>
        now w')) w ms) = reconnection w
   \<and> config (foldl (\<lambda>w' message. fst (send (command message)
        \<lparr>opt_queue = None, opt_onSuccess = onSuccess message, opt_onError = onError message\<rparr>
        now w')) w ms) = config w
   \<and> state (foldl (\<lambda>w' message. fst (send (command message)
        \<lparr>opt_queue = None, opt_onSuccess = onSuccess message, opt_onError = onError message\<rparr>
        now w')) w ms) = state w"
  by (induction ms arbitrary: w) simp_all

lemma flushQueue_frame [simp]:
  "reconnection (flushQueue now w) = reconnection w"
  "config (flushQueue now w) = config w"
  "state (flushQueue now w) = state w"
  by (simp_all add: flushQueue_def flush_def foldl_send_frame)

lemma startHeartbeat_frame [simp]:
  "reconnection (startHeartbeat w) = reconnection w"
  "config (startHeartbeat w) = config w"
  "state (startHeartbeat w) = state w"
  "trace (startHeartbeat w) = trace w"
  by (simp_all add: startHeartbeat_def split: prod.splits)

lemma reset_fields:
  "attempts (fst (reset cfg st)) = 0"
  "currentDelay (fst (reset cfg st)) = initialDelay cfg"
  "timeoutId (fst (reset cfg st)) = None"
  "isScheduled (fst (reset cfg st)) = False"
  by (cases st; simp add: reset_def cancel_def split: option.splits prod.splits)+

section \<open>Properties of the service\<close>

text \<open>
  C5. While the state is not CONNECTED, \<^verbatim>\<open>send\<close> does one of two things. If the caller
  did not pass \<^verbatim>\<open>queue: false\<close> and the queue is not full, the message is appended at
  the tail of the queue, nothing else changes, and the result has success false and
  queued true. If the caller passed \<^verbatim>\<open>queue: false\<close> or the queue is full, the queue is
  left alone, the caller's error callback (when given) is called within the call, and the
  result has success false, queued false and the error text.
\<close>

theorem C5_send_not_connected:
  assumes "state w \<noteq> CONNECTED"
  shows "(opt_queue options \<noteq> Some False
            \<and> \<not> isFull (maxQueueSize (config w)) (messageQueue w) \<longrightarrow>
          send cmd options now w =
            (w\<lparr>messageQueue := messageQueue w @
                  [\<lparr>command = cmd, timestamp = now, send_attempts = 0,
                    onSuccess = opt_onSuccess options, onError = opt_onError options\<rparr>]\<rparr>,
             \<lparr>success = False, queued = True, res_error = None, res_timestamp = now\<rparr>))
     \<and> (opt_queue options = Some False
            \<or> isFull (maxQueueSize (config w)) (messageQueue w) \<longrightarrow>
          send cmd options now w =
            ((case opt_onError options of
                Some f \<Rightarrow> w\<lparr>trace := trace w @ [Callback (CallOnError f ''Not connected to server'')]\<rparr>
              | None \<Rightarrow> w),
             \<lparr>success = False, queued = False, res_error = Some ''Not connected to server'',
               res_timestamp = now\<rparr>))"
  using assms
  by (auto simp: send_def enqueue_def drop_oldest_def isFull_def)

theorem C5_send_not_connected_witness:
  "state (ws_new DEFAULT_CONFIG False) \<noteq> CONNECTED
   \<and> opt_queue \<lparr>opt_queue = None, opt_onSuccess = None, opt_onError = Some 7\<rparr> \<noteq> Some False
   \<and> \<not> isFull (maxQueueSize (config (ws_new DEFAULT_CONFIG False)))
          (messageQueue (ws_new DEFAULT_CONFIG False))
   \<and> snd (send \<lparr>action = ''MOVE'', json = Inr ''{}''\<rparr>
             \<lparr>opt_queue = None, opt_onSuccess = None, opt_onError = Some 7\<rparr> 5
             (ws_new DEFAULT_CONFIG False))
       = \<lparr>success = False, queued = True, res_error = None, res_timestamp = 5\<rparr>
   \<and> opt_queue \<lparr>opt_queue = Some False, opt_onSuccess = None, opt_onError = Some 7\<rparr> = Some False
   \<and> send \<lparr>action = ''MOVE'', json = Inr ''{}''\<rparr>
         \<lparr>opt_queue = Some False, opt_onSuccess = None, opt_onError = Some 7\<rparr> 5
         (ws_new DEFAULT_CONFIG False)
       = ((ws_new DEFAULT_CONFIG False)
            \<lparr>trace := [Callback (CallOnError 7 ''Not connected to server'')]\<rparr>,
          \<lparr>success = False, queued = False, res_error = Some ''Not connected to server'',
            res_timestamp = 5\<rparr>)"
proof -
  let ?w = "ws_new DEFAULT_CONFIG False"
  have a: "state ?w \<noteq> CONNECTED" by (simp add: ws_new_def)
  have b: "\<not> isFull (maxQueueSize (config ?w)) (messageQueue ?w)"
    by (simp add: ws_new_def isFull_def DEFAULT_CONFIG_def)
  have c: "trace ?w = []" by (simp add: ws_new_def)
  from C5_send_not_connected [OF a,
      of "\<lparr>opt_queue = None, opt_onSuccess = None, opt_onError = Some 7\<rparr>"
      "\<lparr>action = ''MOVE'', json = Inr ''{}''\<rparr>" 5]
    C5_send_not_connected [OF a,
      of "\<lparr>opt_queue = Some False, opt_onSuccess = None, opt_onError = Some 7\<rparr>"
      "\<lparr>action = ''MOVE'', json = Inr ''{}''\<rparr>" 5] a b c
  show ?thesis by simp
qed

text \<open>
  C8. When \<^verbatim>\<open>schedule\<close> is called with the attempt count at or above the limit, the
  manager and the timer table stay as they were (attempt count and stored delay
  included, no timer armed) and the exhaustion callback is called: the one passed, or the
  stored one when none is passed. After the service has handled the open event of a
  socket, the attempt count of its manager is 0, the stored delay is the configured
  initial delay, and the manager holds no timer.
\<close>

theorem C8_exhaustion_and_reset:
  "(maxAttempts cfg \<le> attempts r \<longrightarrow>
      schedule cfg f a (Some g) (r, wn) = (r, wn, [CallMaxAttemptsReached g])
      \<and> (onMaxAttemptsReached r = Some g \<longrightarrow>
           schedule cfg f a None (r, wn) = (r, wn, [CallMaxAttemptsReached g])))
   \<and> attempts (reconnection (handleOpen now w)) = 0
   \<and> currentDelay (reconnection (handleOpen now w)) = reconnectDelay (config w)
   \<and> timeoutId (reconnection (handleOpen now w)) = None"
proof -
  have "maxAttempts cfg \<le> attempts r \<longrightarrow>
      schedule cfg f a (Some g) (r, wn) = (r, wn, [CallMaxAttemptsReached g])
      \<and> (onMaxAttemptsReached r = Some g \<longrightarrow>
           schedule cfg f a None (r, wn) = (r, wn, [CallMaxAttemptsReached g]))"
    by (simp add: schedule_def)
  moreover have "reconnection (handleOpen now w)
      = fst (reset (reconnection_config (config w))
               (reconnection w, win (clearConnectionTimeout w)))"
    by (simp add: handleOpen_def Let_def split: prod.splits)
  ultimately show ?thesis
    by (simp add: reset_fields reconnection_config_def)
qed

theorem C8_exhaustion_and_reset_witness:
  "maxAttempts \<lparr>maxAttempts = 3, initialDelay = Finite 100, maxDelay = Finite 1000,
         delayMultiplier = Finite 2\<rparr>
      \<le> attempts exhausted_manager
   \<and> onMaxAttemptsReached exhausted_manager = Some ExhaustedFn
   \<and> schedule \<lparr>maxAttempts = 3, initialDelay = Finite 100, maxDelay = Finite 1000,
         delayMultiplier = Finite 2\<rparr>
        ConnectFn (Some AttemptFn) (Some ExhaustedFn) (exhausted_manager, window_init)
      = (exhausted_manager, window_init, [CallMaxAttemptsReached ExhaustedFn])
   \<and> schedule \<lparr>maxAttempts = 3, initialDelay = Finite 100, maxDelay = Finite 1000,
         delayMultiplier = Finite 2\<rparr>
        ConnectFn (Some AttemptFn) None (exhausted_manager, window_init)
      = (exhausted_manager, window_init, [CallMaxAttemptsReached ExhaustedFn])"
proof -
  have a: "maxAttempts \<lparr>maxAttempts = 3, initialDelay = Finite 100, maxDelay = Finite 1000,
         delayMultiplier = Finite 2\<rparr>
      \<le> attempts exhausted_manager"
    and b: "onMaxAttemptsReached exhausted_manager = Some ExhaustedFn"
    by (simp_all add: exhausted_manager_def)
  from C8_exhaustion_and_reset [of
      "\<lparr>maxAttempts = 3, initialDelay = Finite 100, maxDelay = Finite 1000,
         delayMultiplier = Finite 2\<rparr>"
      exhausted_manager ConnectFn "Some AttemptFn" ExhaustedFn window_init 0
      "ws_new DEFAULT_CONFIG False"] a b
  show ?thesis by blast
qed

text \<open>
  C10. After \<^verbatim>\<open>handleClose\<close> the service is not authenticated, whatever it was before.
  Among the events the handler emits there is exactly one \<^verbatim>\<open>disconnected\<close> event; its
  \<^verbatim>\<open>wasAuthenticated\<close> field is the value from before the handler ran. The handler
  emits no \<^verbatim>\<open>auth_change\<close> event.
\<close>

theorem C10_handleClose_clears_auth:
  "isAuth (handleClose code reasonText now w) = False
   \<and> filter (\<lambda>ev. case ev of Ev_DISCONNECTED r c t a n \<Rightarrow> True | _ \<Rightarrow> False)
        (emitted (effects_since w (handleClose code reasonText now w)))
      = [Ev_DISCONNECTED (close_reason (isManualDisconnect w) code) code reasonText
           (isAuthenticated w) now]
   \<and> filter (\<lambda>ev. case ev of Ev_AUTH_CHANGE a n \<Rightarrow> True | _ \<Rightarrow> False)
        (emitted (effects_since w (handleClose code reasonText now w))) = []"
  by (simp add: handleClose_def Let_def isAuth_def effects_since_def scheduleReconnect_frame)

section \<open>Executions in which the service leaves its documentation\<close>

text \<open>The reason of a \<^verbatim>\<open>disconnected\<close> event is computed from the manual flag and the
  close code alone, and is never \<open>TIMEOUT\<close> or \<open>MAX_RETRIES_EXCEEDED\<close>.\<close>

lemma close_reason_range:
  "close_reason manual code \<in> {MANUAL, NETWORK_ERROR, SERVER_CLOSED, UNKNOWN}"
  by (simp add: close_reason_def)

lemma closeConnection_trace:
  "emitted (trace (closeConnection reason now w)) =
     emitted (trace w)
       @ (if state w = CLOSED then [] else [Ev_STATE_CHANGE (state w) CLOSED now])"
  by (simp add: closeConnection_def Let_def socket_close_def split: option.splits)

text \<open>
  C1 (the code departs from it). Two executions with the default configuration. In the
  first the connection timer runs while the state is CONNECTING: the service closes the
  socket with the text TIMEOUT and goes to CLOSED without emitting \<^verbatim>\<open>disconnected\<close>;
  the event is emitted when the close event of the socket arrives (code 1006 for a socket
  closed before it opened), with reason \<open>NETWORK_ERROR\<close>. In the second (heartbeat every
  30 s) a probe is sent and the heartbeat timer runs; the close event arrives with code
  1000 and the text TIMEOUT echoed, and the reason is \<open>SERVER_CLOSED\<close>.
\<close>

theorem C1_timeout_reported_with_other_reason:
  "map_option (\<lambda>w. emitted (trace w))
     (run [(Connect, 0), (Timer 1, 10000), (OnClose 0 1006 [], 10001)]
        (ws_new DEFAULT_CONFIG False))
   = Some [Ev_STATE_CHANGE CLOSED CONNECTING 0,
           Ev_STATE_CHANGE CONNECTING CLOSED 10000,
           Ev_DISCONNECTED NETWORK_ERROR 1006 [] False 10001,
           Ev_STATE_CHANGE CLOSED RECONNECTING 10001,
           Ev_RECONNECT_ATTEMPT 1 10 (Finite 1000) 10001]
   \<and> map_option (\<lambda>w. emitted (trace w))
     (run [(Connect, 0), (OnOpen 0, 50), (Timer 2, 30050), (Timer 3, 40050),
           (OnClose 0 1000 ''TIMEOUT'', 40060)]
        (ws_new (DEFAULT_CONFIG\<lparr>heartbeatInterval := Finite 30000\<rparr>) False))
   = Some [Ev_STATE_CHANGE CLOSED CONNECTING 0,
           Ev_STATE_CHANGE CONNECTING CONNECTED 50,
           Ev_CONNECTED 50 0,
           Ev_STATE_CHANGE CONNECTED CLOSED 40050,
           Ev_DISCONNECTED SERVER_CLOSED 1000 ''TIMEOUT'' False 40060,
           Ev_STATE_CHANGE CLOSED RECONNECTING 40060,
           Ev_RECONNECT_ATTEMPT 1 10 (Finite 1000) 40060]"
  by code_simp

text \<open>Whenever the limit is reached and a reconnection is due, \<^verbatim>\<open>handleClose\<close> ends in
  RECONNECTING, with the error event as the last thing emitted.\<close>

lemma handleClose_exhausted:
  assumes "maxReconnectAttempts (config w) \<le> attempts (reconnection w)"
    and "\<not> isManualDisconnect w" and "autoReconnect (config w)"
  shows "state (handleClose code reasonText now w) = RECONNECTING"
    and "last (emitted (trace (handleClose code reasonText now w)))
           = Ev_ERROR ''connection'' ''Maximum reconnection attempts exceeded'' now"
  using assms by (simp_all add: handleClose_def Let_def scheduleReconnect_frame)

text \<open>
  C3 (the code departs from it). With a limit of one attempt: the first connection
  fails, one reconnection is scheduled and runs, the second connection fails. The
  service then sets RECONNECTING, the manager reports exhaustion, the error event is
  emitted, and nothing sets the state again: it stays RECONNECTING with no timer pending.
\<close>

theorem C3_exhaustion_leaves_RECONNECTING:
  "map_option (\<lambda>w. (state w, timer_list (win w), emitted (trace w)))
     (run [(Connect, 0), (OnClose 0 1006 [], 10), (Timer 2, 1010), (OnClose 1 1006 [], 1020)]
        (ws_new (DEFAULT_CONFIG\<lparr>maxReconnectAttempts := 1\<rparr>) False))
   = Some (RECONNECTING, [],
       [Ev_STATE_CHANGE CLOSED CONNECTING 0,
        Ev_STATE_CHANGE CONNECTING CLOSED 10,
        Ev_DISCONNECTED NETWORK_ERROR 1006 [] False 10,
        Ev_STATE_CHANGE CLOSED RECONNECTING 10,
        Ev_RECONNECT_ATTEMPT 1 1 (Finite 1000) 10,
        Ev_STATE_CHANGE RECONNECTING CONNECTING 1010,
        Ev_STATE_CHANGE CONNECTING CLOSED 1020,
        Ev_DISCONNECTED NETWORK_ERROR 1006 [] False 1020,
        Ev_STATE_CHANGE CLOSED RECONNECTING 1020,
        Ev_ERROR ''connection'' ''Maximum reconnection attempts exceeded'' 1020])"
  by code_simp

text \<open>
  C6 (the code departs from its first half). With automatic reconnection switched off:
  \<^verbatim>\<open>connect\<close>, \<^verbatim>\<open>disconnect\<close> and \<^verbatim>\<open>connect\<close> again create a second socket while the
  first is still closing. The close event of the first socket then runs \<^verbatim>\<open>handleClose\<close>,
  which sets CLOSED, and the open event of the second runs \<^verbatim>\<open>handleOpen\<close>, which sets
  CONNECTED: the state goes from CLOSED to CONNECTED in one step.
\<close>

theorem C6_closed_to_connected_in_one_step:
  "map_option (\<lambda>w. (state w, emitted (trace w)))
     (run [(Connect, 0), (Disconnect, 1), (Connect, 2), (OnClose 0 1006 [], 3), (OnOpen 1, 4)]
        (ws_new (DEFAULT_CONFIG\<lparr>autoReconnect := False\<rparr>) False))
   = Some (CONNECTED,
       [Ev_STATE_CHANGE CLOSED CONNECTING 0,
        Ev_STATE_CHANGE CONNECTING CLOSED 1,
        Ev_STATE_CHANGE CLOSED CONNECTING 2,
        Ev_STATE_CHANGE CONNECTING CLOSED 3,
        Ev_DISCONNECTED NETWORK_ERROR 1006 [] False 3,
        Ev_STATE_CHANGE CLOSED CONNECTED 4,
        Ev_CONNECTED 4 0])"
  by code_simp

text \<open>
  C7 (the code departs from its last part). Heartbeat every 6000 ms, timeout 10000 ms.
  Probes are sent at 6000 and at 12000; the second tick stores the handle of its timer
  over the handle of the first. The acknowledgment at 12050 takes the second timer out
  of the table and reports a latency of 50; the timer of the first probe is still in
  the table. It runs at 16000, before which an acknowledgment had arrived, and the
  timeout callback closes the connection.
\<close>

theorem C7_acknowledged_probe_times_out:
  "map_option (\<lambda>w. (state w, timer_list (win w), lastLatency (metrics w)))
     (run [(Connect, 0), (OnOpen 0, 0), (Timer 2, 6000), (Timer 2, 12000),
           (OnMessage 0 \<lparr>raw = ''{}'', parse = ObjectWithType ''PONG''\<rparr>, 12050)]
        (ws_new (DEFAULT_CONFIG\<lparr>heartbeatInterval := Finite 6000\<rparr>) False))
   = Some (CONNECTED,
           [(3, HeartbeatTimer, Finite 10000), (2, HeartbeatTick, Finite 6000)], 50)
   \<and> map_option (\<lambda>w. (state w, timer_list (win w), emitted (trace w)))
     (run [(Connect, 0), (OnOpen 0, 0), (Timer 2, 6000), (Timer 2, 12000),
           (OnMessage 0 \<lparr>raw = ''{}'', parse = ObjectWithType ''PONG''\<rparr>, 12050),
           (Timer 3, 16000)]
        (ws_new (DEFAULT_CONFIG\<lparr>heartbeatInterval := Finite 6000\<rparr>) False))
   = Some (CLOSED, [],
           [Ev_STATE_CHANGE CLOSED CONNECTING 0,
            Ev_STATE_CHANGE CONNECTING CONNECTED 0,
            Ev_CONNECTED 0 0,
            Ev_STATE_CHANGE CONNECTED CLOSED 16000])"
  by code_simp

section \<open>The log of state changes in every execution\<close>

lemma state_changes_append [simp]:
  "state_changes (xs @ ys) = state_changes xs @ state_changes ys"
  by (induction xs rule: state_changes.induct) simp_all

lemma follows_append:
  "follows a xs b \<Longrightarrow> follows b ys c \<Longrightarrow> follows a (xs @ ys) c"
  by (induction a xs b rule: follows.induct) auto

lemma extendsI:
  "trace w' = trace w @ es \<Longrightarrow> follows (state w) (state_changes (emitted es)) (state w')
     \<Longrightarrow> list_all computed_reason (emitted es) \<Longrightarrow> extends w w'"
  by (simp add: extends_def effects_since_def)

lemma extendsE:
  assumes "extends w w'"
  obtains es where "trace w' = trace w @ es"
    and "follows (state w) (state_changes (emitted es)) (state w')"
    and "list_all computed_reason (emitted es)"
  using assms by (auto simp: extends_def)

lemma extends_refl: "extends w w"
  by (rule extendsI [of _ _ "[]"]) simp_all

lemma extends_trans: "extends a b \<Longrightarrow> extends b c \<Longrightarrow> extends a c"
proof -
  assume "extends a b" "extends b c"
  then obtain es fs where 1: "trace b = trace a @ es" "trace c = trace b @ fs"
    and 2: "follows (state a) (state_changes (emitted es)) (state b)"
           "follows (state b) (state_changes (emitted fs)) (state c)"
    and 3: "list_all computed_reason (emitted es)" "list_all computed_reason (emitted fs)"
    by (auto elim!: extendsE)
  show ?thesis
    by (rule extendsI [of _ _ "es @ fs"]) (use 1 2 3 in \<open>simp_all add: follows_append\<close>)
qed

text \<open>A step that leaves state and trace alone.\<close>

lemma extends_same: "extends w x \<Longrightarrow> trace y = trace x \<Longrightarrow> state y = state x \<Longrightarrow> extends w y"
  by (simp add: extends_def effects_since_def)

lemma extends_setState: "extends w x \<Longrightarrow> extends w (setState s now x)"
proof (erule extends_trans)
  show "extends x (setState s now x)"
    by (rule extendsI [of _ _ "if state x = s then [] else [Emit (Ev_STATE_CHANGE (state x) s now)]"])
       auto
qed

lemma extends_emit:
  "extends w x \<Longrightarrow> state_changes [ev] = [] \<Longrightarrow> computed_reason ev \<Longrightarrow> extends w (emit ev x)"
proof (erule extends_trans)
  assume "state_changes [ev] = []" "computed_reason ev"
  then show "extends x (emit ev x)"
    by (intro extendsI [of _ _ "[Emit ev]"]) simp_all
qed

lemma extends_effects:
  "extends w x \<Longrightarrow> trace y = trace x @ es \<Longrightarrow> emitted es = [] \<Longrightarrow> state y = state x
     \<Longrightarrow> extends w y"
proof (erule extends_trans)
  assume "trace y = trace x @ es" "emitted es = []" "state y = state x"
  then show "extends x y"
    by (intro extendsI [of _ _ es]) simp_all
qed

lemma emitted_map_Callback [simp]: "emitted (map Callback cs) = []"
  by (induction cs) simp_all

lemma extends_update:
  "extends w x \<Longrightarrow> extends w (socket_update f1 x)"
  "extends w x \<Longrightarrow> extends w (isAuthenticated_update f2 x)"
  "extends w x \<Longrightarrow> extends w (messageQueue_update f3 x)"
  "extends w x \<Longrightarrow> extends w (metrics_update f4 x)"
  "extends w x \<Longrightarrow> extends w (heartbeat_update f5 x)"
  "extends w x \<Longrightarrow> extends w (reconnection_update f6 x)"
  "extends w x \<Longrightarrow> extends w (connectionTimeoutId_update f7 x)"
  "extends w x \<Longrightarrow> extends w (isManualDisconnect_update f8 x)"
  "extends w x \<Longrightarrow> extends w (isDestroyed_update f9 x)"
  "extends w x \<Longrightarrow> extends w (win_update f10 x)"
  "extends w x \<Longrightarrow> extends w (sockets_update f11 x)"
  by (erule extends_same; simp)+

lemma extends_trace_update:
  assumes "extends w x" and "take (length (trace x)) t = trace x"
    and "emitted (drop (length (trace x)) t) = []"
  shows "extends w (x\<lparr>trace := t\<rparr>)"
proof (rule extends_effects [OF assms(1), where es = "drop (length (trace x)) t"])
  show "trace (x\<lparr>trace := t\<rparr>) = trace x @ drop (length (trace x)) t"
    using assms(2) append_take_drop_id [of "length (trace x)" t] by simp
qed (use assms(3) in simp_all)

lemma extends_clearConnectionTimeout: "extends w x \<Longrightarrow> extends w (clearConnectionTimeout x)"
  by (erule extends_same) simp_all

lemma extends_heartbeat_stop: "extends w x \<Longrightarrow> extends w (heartbeat_stop x)"
  by (erule extends_same) simp_all

lemma socket_close_frame [simp]:
  "trace (socket_close sid code reason w) = trace w @ [SocketClose sid code reason]"
  "state (socket_close sid code reason w) = state w"
  by (simp_all add: socket_close_def)

lemma extends_socket_close: "extends w x \<Longrightarrow> extends w (socket_close sid code reason x)"
  by (erule extends_effects [where es = "[SocketClose sid code reason]"]) simp_all

lemmas extends_basic =
  extends_setState extends_update extends_clearConnectionTimeout extends_heartbeat_stop
  extends_socket_close

lemma extends_closeConnection: "extends w x \<Longrightarrow> extends w (closeConnection reason now x)"
  unfolding closeConnection_def Let_def
  by (auto split: option.splits intro!: extends_basic)

lemma extends_handleConnectionError:
  "extends w x \<Longrightarrow> extends w (handleConnectionError reason now x)"
  unfolding handleConnectionError_def by (rule extends_closeConnection)

lemma extends_createConnection: "extends w x \<Longrightarrow> extends w (createConnection now x)"
  unfolding createConnection_def Let_def
  by (auto split: prod.splits intro!: extends_basic extends_handleConnectionError)

lemma extends_connect: "extends w x \<Longrightarrow> connect now x = Inr y \<Longrightarrow> extends w y"
  unfolding connect_def
  by (auto split: if_splits intro!: extends_basic extends_createConnection)

lemma extends_reconnection_cancel: "extends w x \<Longrightarrow> extends w (reconnection_cancel x)"
  unfolding reconnection_cancel_def
  by (auto split: prod.splits intro!: extends_basic)

lemma extends_disconnect: "extends w x \<Longrightarrow> extends w (disconnect now x)"
  unfolding disconnect_def
  by (intro extends_closeConnection extends_heartbeat_stop extends_reconnection_cancel
        extends_basic)

lemma extends_send: "extends w x \<Longrightarrow> extends w (fst (send cmd options now x))"
  unfolding send_def send_failed_def Let_def
  by (auto split: option.splits sum.splits prod.splits
      intro!: extends_basic extends_emit extends_trace_update)


lemma extends_foldl:
  assumes "\<And>x c. extends w x \<Longrightarrow> extends w (f x c)"
  shows "extends w x \<Longrightarrow> extends w (foldl f x cs)"
  by (induction cs arbitrary: x) (simp_all add: assms)

lemma extends_flushQueue: "extends w x \<Longrightarrow> extends w (flushQueue now x)"
  unfolding flushQueue_def flush_def
  by (auto intro!: extends_foldl extends_send extends_basic)

lemma extends_startHeartbeat: "extends w x \<Longrightarrow> extends w (startHeartbeat x)"
  unfolding startHeartbeat_def
  by (auto split: prod.splits intro!: extends_basic)

lemma extends_handleOpen: "extends w x \<Longrightarrow> extends w (handleOpen now x)"
  unfolding handleOpen_def Let_def
  by (auto split: prod.splits
      intro!: extends_flushQueue extends_startHeartbeat extends_emit extends_basic)

lemma extends_run_hb_call: "extends w x \<Longrightarrow> extends w (run_hb_call now x c)"
  by (cases "(now, x, c)" rule: run_hb_call.cases)
     (auto intro!: extends_basic extends_handleConnectionError)

lemma extends_handleMessage: "extends w x \<Longrightarrow> extends w (handleMessage fr now x)"
  unfolding handleMessage_def Let_def
  by (auto split: parsed.splits prod.splits
      intro!: extends_foldl extends_run_hb_call extends_emit extends_basic)

lemma extends_run_rm_call: "extends w x \<Longrightarrow> extends w (run_rm_call now x c)"
  by (cases "(now, x, c)" rule: run_rm_call.cases)
     (auto split: sum.splits intro!: extends_basic extends_emit elim: extends_connect)

lemma extends_scheduleReconnect: "extends w x \<Longrightarrow> extends w (scheduleReconnect now x)"
  unfolding scheduleReconnect_def Let_def
  by (auto split: prod.splits intro!: extends_foldl extends_run_rm_call extends_basic)

lemma computed_close_reason:
  "computed_reason (Ev_DISCONNECTED (close_reason manual code) code reasonText a now)"
  by (simp add: close_reason_def)

lemma extends_handleClose: "extends w x \<Longrightarrow> extends w (handleClose code reasonText now x)"
  unfolding handleClose_def Let_def
  by (auto intro!: extends_scheduleReconnect extends_emit extends_basic computed_close_reason)

lemma extends_setAuthenticated: "extends w x \<Longrightarrow> extends w (setAuthenticated b now x)"
  unfolding setAuthenticated_def
  by (auto intro!: extends_emit extends_basic)

lemma extends_destroy: "extends w x \<Longrightarrow> extends w (destroy now x)"
  unfolding destroy_def
  by (intro extends_basic extends_disconnect)

lemma extends_heartbeatTick: "extends w x \<Longrightarrow> extends w (heartbeatTick now x)"
  unfolding heartbeatTick_def ping_closure_def
  by (auto split: option.splits prod.splits if_splits
      intro!: extends_basic extends_trace_update)

lemma extends_timer_fired: "extends w x \<Longrightarrow> extends w (timer_fired k now x)"
  by (cases k)
     (auto simp: connectionTimeoutFired_def reconnectTimerFired_def heartbeatTimeoutFired_def
        split: prod.splits
        intro!: extends_foldl extends_run_rm_call extends_run_hb_call extends_heartbeatTick
          extends_handleConnectionError extends_basic)

lemma extends_step: "step i now x = Some y \<Longrightarrow> extends x y"
proof (cases i)
  case Connect
  assume "step i now x = Some y"
  with Connect show ?thesis
    by (auto split: sum.splits intro: extends_refl elim: extends_connect [OF extends_refl])
next
  case (Timer tid)
  assume "step i now x = Some y"
  with Timer show ?thesis
    by (auto split: option.splits intro!: extends_timer_fired extends_basic extends_refl)
qed (auto simp: clearQueue_def getMetrics_def handleError_def split: if_splits
      intro!: extends_disconnect extends_send extends_setAuthenticated extends_destroy
        extends_handleOpen extends_handleMessage extends_handleClose extends_basic extends_refl)

lemma extends_run: "run ins x = Some y \<Longrightarrow> extends x y"
proof (induction ins arbitrary: x)
  case Nil
  then show ?case by (simp add: extends_refl)
next
  case (Cons a ins)
  obtain i now where a: "a = (i, now)" by (cases a)
  with Cons.prems obtain x' where s: "step i now x = Some x'" and r: "run ins x' = Some y"
    by (auto split: option.splits)
  from extends_step [OF s] Cons.IH [OF r] show ?case by (rule extends_trans)
qed

text \<open>
  In every execution from a new service, whatever the inputs: the \<^verbatim>\<open>state_change\<close>
  events emitted so far are exactly the changes of the state, from CLOSED at construction
  to the current state, one event for each change and none from a state to itself; and
  every \<^verbatim>\<open>disconnected\<close> event carries one of the four computed reasons.
\<close>

lemma state_change_log:
  assumes "run ins (ws_new cfg throws) = Some w"
  shows "follows CLOSED (state_changes (emitted (trace w))) (state w)"
    and "list_all computed_reason (emitted (trace w))"
  using extends_run [OF assms] by (auto elim!: extendsE simp: ws_new_def)

end
